theory Spec2Isabelle
  imports Main
begin

section \<open>The graph model used by \<open>SDPAToPagedAttention::run_on_model\<close>\<close>

text \<open>
  The pass \<open>ov::pass::SDPAToPagedAttention::run_on_model\<close>
  (\<^verbatim>\<open>src/core/src/pass/sdpa_to_paged_attention.cpp\<close>) edits an \<open>ov::Model\<close> in place
  through \<open>std::shared_ptr\<close> handles. Several handles may point to the same node, and the
  pass mutates nodes that the model's parameter list refers to, so nodes live in an
  explicit store: a handle is an index into the list of all node objects, and
  \<open>std::make_shared\<close> appends a new object. A null handle is \<open>None\<close>.

  Modelled from the spec: the classes \<open>ov::Node\<close>, \<open>ov::Model\<close> and the operator classes
  are declared outside the source file. By section 3 of the spec a Parameter has an element
  type, a partial shape and bound names, and a graph owns an ordered sequence of
  Parameters, an ordered sequence of Results and its Sinks. The element types and the
  operators below are those that the source file names, with \<open>f32\<close> and \<open>Other\<close> for the
  rest.
\<close>

type_synonym node_id = nat

datatype element_type = i32 | i64 | f32

text \<open>A \<open>PartialShape\<close>: one entry per dimension, \<open>-1\<close> for a dynamic dimension.\<close>

type_synonym partial_shape = "int list"

datatype op_type =
    Parameter element_type partial_shape
  | Constant element_type "nat list" "int list"
  | Unsqueeze
  | ShapeOf
  | Gather
  | Convert element_type
  | Subtract
  | Result
  | Assign
  | Other string

record node =
  op :: op_type
  friendly_name :: string
  names :: "string list"
  args :: "node_id list"

text \<open>
  \<open>names\<close> are the names of the node's output tensor 0 (\<open>get_output_tensor(0).get_names()\<close>),
  \<open>args\<close> the nodes whose outputs the node consumes, in input order.
\<close>

record model =
  heap :: "node list"
  m_parameters :: "node_id list"
  m_results :: "node_id list"
  m_sinks :: "node_id list"

text \<open>Reading through a handle: the node object it points to, if there is one.\<close>

definition get_node :: "model \<Rightarrow> node_id \<Rightarrow> node option" where
  "get_node m i = (if i < length (heap m) then Some (heap m ! i) else None)"

text \<open>The tensor names of the node behind a handle.\<close>

definition get_names :: "model \<Rightarrow> node_id \<Rightarrow> string list" where
  "get_names m i = (case get_node m i of Some n \<Rightarrow> names n | None \<Rightarrow> [])"

text \<open>\<open>std::make_shared\<close>: a new node object at the end of the store, and its handle.\<close>

definition make_shared :: "node \<Rightarrow> model \<Rightarrow> node_id \<times> model" where
  "make_shared n m = (length (heap m), m\<lparr>heap := heap m @ [n]\<rparr>)"

text \<open>A mutation of the node behind a handle; every handle to the node sees it.\<close>

definition update_node :: "(node \<Rightarrow> node) \<Rightarrow> node_id \<Rightarrow> model \<Rightarrow> model" where
  "update_node f i m =
     (if i < length (heap m) then m\<lparr>heap := (heap m)[i := f (heap m ! i)]\<rparr> else m)"

text \<open>A node object as its constructor leaves it: an operator and its arguments, no name yet.\<close>

definition op_node :: "op_type \<Rightarrow> node_id list \<Rightarrow> node" where
  "op_node k as = \<lparr>op = k, friendly_name = [], names = [], args = as\<rparr>"

text \<open>\<open>std::make_shared<v0::Parameter>(et, shape)\<close>.\<close>

definition new_Parameter :: "element_type \<Rightarrow> partial_shape \<Rightarrow> model \<Rightarrow> node_id \<times> model" where
  "new_Parameter et ps m = make_shared (op_node (Parameter et ps) []) m"

text \<open>\<open>v0::Constant::create(et, shape, values)\<close>.\<close>

definition Constant_create :: "element_type \<Rightarrow> nat list \<Rightarrow> int list \<Rightarrow> model \<Rightarrow> node_id \<times> model" where
  "Constant_create et shape vals m = make_shared (op_node (Constant et shape vals) []) m"

text \<open>\<open>std::make_shared<Op>(inputs...)\<close> for the operator nodes the pass builds.\<close>

definition new_op :: "op_type \<Rightarrow> node_id list \<Rightarrow> model \<Rightarrow> node_id \<times> model" where
  "new_op k as m = make_shared (op_node k as) m"

text \<open>
  \<open>setName\<close> (lines 20-27) sets the friendly name and replaces the names of the single
  output tensor by the given one. It is only called on a node that
  \<open>std::make_shared<v0::Parameter>\<close> has just built, which has exactly one output, so the
  assertion of line 24 holds at each call.
\<close>

definition setName :: "node_id \<Rightarrow> string \<Rightarrow> model \<Rightarrow> node_id \<times> model" where
  "setName node name m =
     (node, update_node (\<lambda>n. n\<lparr>friendly_name := name, names := [name]\<rparr>) node m)"

text \<open>
  \<open>std::dynamic_pointer_cast<v0::Parameter>\<close>: the handle itself when the node it points to
  is a Parameter, the null handle otherwise.
\<close>

definition dynamic_pointer_cast_Parameter :: "model \<Rightarrow> node_id \<Rightarrow> node_id option" where
  "dynamic_pointer_cast_Parameter m i =
     (case get_node m i of
        None \<Rightarrow> None
      | Some n \<Rightarrow> (case op n of Parameter et ps \<Rightarrow> Some i | _ \<Rightarrow> None))"

text \<open>
  Modelled from the spec: \<open>Parameter::set_partial_shape\<close> is defined outside the source
  file. Sections 4.2 and 4.3 have it relax the shape of the Parameter; the element type
  stays.
\<close>

definition set_partial_shape :: "node_id \<Rightarrow> partial_shape \<Rightarrow> model \<Rightarrow> model" where
  "set_partial_shape p ps m =
     update_node (\<lambda>n. case op n of Parameter et old \<Rightarrow> n\<lparr>op := Parameter et ps\<rparr> | _ \<Rightarrow> n) p m"

subsection \<open>The \<open>ov::Model\<close> interface\<close>

text \<open>
  The member functions of \<open>ov::Model\<close> and the function \<open>ov::replace_node\<close> that
  \<open>run_on_model\<close> calls are defined outside the source file.
\<close>

text \<open>
  Modelled from the spec: \<open>Model::inputs\<close>. Section 3 has each Parameter looked up by a bound
  name and lets such a lookup resolve to a node that is not a Parameter ("a derived value"),
  so the inputs of a model are the nodes of its Parameter sequence, whatever operator they
  are.
\<close>

definition inputs :: "model \<Rightarrow> node_id list" where
  "inputs m = m_parameters m"

text \<open>
  Modelled from the spec: \<open>Model::input(name)\<close> resolves the name to the first input that
  carries it. A name that no input carries is a lookup failure, \<open>None\<close> here (section 4.5
  calls the absence of \<open>attention_mask\<close> fatal).
\<close>

definition input :: "model \<Rightarrow> string \<Rightarrow> node_id option" where
  "input m name = find (\<lambda>t. name \<in> set (get_names m t)) (inputs m)"

text \<open>
  Modelled from the spec: \<open>Model::remove_parameter\<close> removes the Parameter from the
  Parameter sequence (section 4.5, steps 1 to 3): every occurrence of the handle.
\<close>

definition remove_parameter :: "model \<Rightarrow> node_id \<Rightarrow> model" where
  "remove_parameter m p = m\<lparr>m_parameters := removeAll p (m_parameters m)\<rparr>"

text \<open>
  Modelled from the spec: \<open>Model::add_parameters\<close> appends the Parameters, in their order,
  at the end of the Parameter sequence (section 4.5, step 6).
\<close>

definition add_parameters :: "model \<Rightarrow> node_id list \<Rightarrow> model" where
  "add_parameters m ps = m\<lparr>m_parameters := m_parameters m @ ps\<rparr>"

text \<open>Modelled from the spec: \<open>Model::get_sinks\<close> gives the Sinks of the graph (section 3).\<close>

definition get_sinks :: "model \<Rightarrow> node_id list" where
  "get_sinks m = m_sinks m"

text \<open>
  Modelled from the spec: \<open>Model::remove_sink\<close> removes the Sink from the graph (section 4.5,
  step 4).
\<close>

definition remove_sink :: "model \<Rightarrow> node_id \<Rightarrow> model" where
  "remove_sink m s = m\<lparr>m_sinks := removeAll s (m_sinks m)\<rparr>"

text \<open>
  Modelled from the spec: \<open>Model::remove_result\<close> removes the Result from the Result
  sequence (section 4.5, step 5).
\<close>

definition remove_result :: "model \<Rightarrow> node_id \<Rightarrow> model" where
  "remove_result m r = m\<lparr>m_results := removeAll r (m_results m)\<rparr>"

text \<open>
  Modelled from the spec: \<open>ov::replace_node(target, replacement)\<close> rewires every consumer
  of \<open>target\<close> to consume \<open>replacement\<close> instead (sections 4.2 and 4.3). The consumers are
  the node objects that have \<open>target\<close> among their arguments when the call is made; a node
  that was built on \<open>target\<close> just before the call is one of them.
\<close>

definition rewire :: "node_id \<Rightarrow> node_id \<Rightarrow> node \<Rightarrow> node" where
  "rewire target replacement n =
     n\<lparr>args := map (\<lambda>a. if a = target then replacement else a) (args n)\<rparr>"

definition replace_node :: "node_id \<Rightarrow> node_id \<Rightarrow> model \<Rightarrow> model" where
  "replace_node target replacement m = m\<lparr>heap := map (rewire target replacement) (heap m)\<rparr>"

section \<open>\<open>run_on_model\<close>\<close>

text \<open>
  How a run ends: it returns a boolean, or the lookup \<open>model->input(name)\<close> fails for a name
  no input carries, or a null handle is dereferenced. Every function below returns the
  model as it is at that point, since nothing is rolled back.
\<close>

datatype outcome = Returned bool | LookupFailed | NullDereference

text \<open>
  The lambda \<open>has_parameter\<close> (lines 53-62): the loop over \<open>model->inputs()\<close> that returns at
  the first input whose tensor names contain \<open>name\<close>.
\<close>

fun has_parameter_loop :: "model \<Rightarrow> string \<Rightarrow> node_id list \<Rightarrow> bool" where
  "has_parameter_loop m name [] = False"
| "has_parameter_loop m name (t # ts) =
     (if name \<in> set (get_names m t) then True else has_parameter_loop m name ts)"

definition has_parameter :: "model \<Rightarrow> string \<Rightarrow> bool" where
  "has_parameter m name = has_parameter_loop m name (inputs m)"

text \<open>
  Lines 31-38: the five scheduling-metadata Parameters and the sliding-window constant.
  They are detached nodes: the model's lists are not touched.
\<close>

definition named_Parameter :: "element_type \<Rightarrow> partial_shape \<Rightarrow> string \<Rightarrow> model \<Rightarrow> node_id \<times> model" where
  "named_Parameter et ps name m = (let (p, m1) = new_Parameter et ps m in setName p name m1)"

definition scheduling_parameters :: "model \<Rightarrow> (node_id \<times> node_id list \<times> node_id) \<times> model" where
  "scheduling_parameters m =
     (let (max_context_len, m1) = named_Parameter i32 [] ''max_context_len'' m;
          (context_lens, m2) = named_Parameter i32 [-1] ''context_lens'' m1;
          (subsequence_begins, m3) = named_Parameter i32 [-1] ''subsequence_begins'' m2;
          (block_indices, m4) = named_Parameter i32 [-1] ''block_indices'' m3;
          (block_indices_begins, m5) = named_Parameter i32 [-1] ''block_indices_begins'' m4;
          model_remaining_params =
            [context_lens, subsequence_begins, block_indices, block_indices_begins];
          (sliding_window, m6) = Constant_create i32 [] [0] m5
      in ((max_context_len, model_remaining_params, sliding_window), m6))"

text \<open>
  Lines 40-45: the token-id input. The handle that the cast returns is dereferenced by
  \<open>set_partial_shape\<close> without a test.
\<close>

definition adapt_input_ids :: "model \<Rightarrow> (outcome \<times> model) + (node_id \<times> model)" where
  "adapt_input_ids m =
     (case input m ''input_ids'' of
        None \<Rightarrow> Inl (LookupFailed, m)
      | Some t \<Rightarrow>
          (case dynamic_pointer_cast_Parameter m t of
             None \<Rightarrow> Inl (NullDereference, m)
           | Some input_ids_node \<Rightarrow>
               (let m1 = set_partial_shape input_ids_node [-1] m;
                    (axis, m2) = Constant_create i32 [] [1] m1;
                    (unsqueezed_input_ids, m3) = new_op Unsqueeze [input_ids_node, axis] m2;
                    m4 = replace_node input_ids_node unsqueezed_input_ids m3
                in Inr (unsqueezed_input_ids, m4))))"

text \<open>Lines 47-51: \<open>cur_seq_len\<close> and \<open>prev_max_seq_len\<close>.\<close>

definition make_prev_max_seq_len :: "node_id \<Rightarrow> node_id \<Rightarrow> model \<Rightarrow> node_id \<times> model" where
  "make_prev_max_seq_len max_context_len unsqueezed_input_ids m =
     (let (shape_of, m1) = new_op ShapeOf [unsqueezed_input_ids] m;
          (indices, m2) = Constant_create i64 [] [1] m1;
          (axis, m3) = Constant_create i64 [] [0] m2;
          (cur_seq_len, m4) = new_op Gather [shape_of, indices, axis] m3;
          (converted, m5) = new_op (Convert i32) [cur_seq_len] m4
      in new_op Subtract [max_context_len, converted] m5)"

text \<open>
  Lines 69-79: the position-id input. In the \<open>else\<close> branch the handle that the cast returns
  is dereferenced by \<open>set_partial_shape\<close> without a test.
\<close>

definition adapt_position_ids :: "model \<Rightarrow> (outcome \<times> model) + (node_id \<times> model)" where
  "adapt_position_ids m =
     (let found =
        (if \<not> has_parameter m ''position_ids'' then
           (let (position_ids, m1) = named_Parameter i64 [-1] ''position_ids'' m
            in Inr (position_ids, add_parameters m1 [position_ids]))
         else
           (case input m ''position_ids'' of
              None \<Rightarrow> Inl (LookupFailed, m)
            | Some t \<Rightarrow>
                (case dynamic_pointer_cast_Parameter m t of
                   None \<Rightarrow> Inl (NullDereference, m)
                 | Some position_ids \<Rightarrow> Inr (position_ids, set_partial_shape position_ids [-1] m))))
      in case found of
           Inl stop \<Rightarrow> Inl stop
         | Inr (position_ids, m2) \<Rightarrow>
             (let (axis, m3) = Constant_create i32 [] [1] m2;
                  (unsqueezed_position_ids, m4) = new_op Unsqueeze [position_ids, axis] m3;
                  m5 = replace_node position_ids unsqueezed_position_ids m4
              in Inr (unsqueezed_position_ids, m5)))"

subsection \<open>The sub-passes\<close>

text \<open>
  Modelled from the spec: the pass manager and the four sub-passes
  (\<open>StateManagementPattern\<close>, \<open>PrevSequenceLengthPattern\<close>, \<open>TotalSequenceLengthPattern\<close>,
  \<open>PositionIDsReplacer\<close>) are defined outside the source file and are a parameter of
  \<open>run_on_model\<close> here. By sections 4.4 and 6 of the spec they receive the handles of
  \<open>pass_inputs\<close> (the values registered in lines 85-95), mutate the graph and the shared
  mutable context \<open>pass_context\<close> (\<open>kv_parameters\<close>, \<open>assignes_to_remove\<close>,
  \<open>parameters_to_remove\<close>, \<open>layer_index\<close>) in place, and report no failure of their own.
\<close>

record pass_inputs =
  p_max_context_len :: node_id
  p_model_remaining_params :: "node_id list"
  p_sliding_window :: node_id
  p_prev_max_seq_len :: node_id
  p_unsqueezed_position_ids :: node_id

record pass_context =
  c_kv_parameters :: "node_id list"
  c_assignes_to_remove :: "node_id list"
  c_parameters_to_remove :: "node_id list"
  c_layer_index :: int

type_synonym passes = "pass_inputs \<Rightarrow> pass_context \<Rightarrow> model \<Rightarrow> pass_context \<times> model"

text \<open>Lines 31-81: everything up to the registration of the sub-passes.\<close>

definition prepare :: "model \<Rightarrow> (outcome \<times> model) + (pass_inputs \<times> model)" where
  "prepare m =
     (let ((max_context_len, model_remaining_params, sliding_window), m1) = scheduling_parameters m
      in case adapt_input_ids m1 of
           Inl stop \<Rightarrow> Inl stop
         | Inr (unsqueezed_input_ids, m2) \<Rightarrow>
             (let (prev_max_seq_len, m3) =
                    make_prev_max_seq_len max_context_len unsqueezed_input_ids m2
              in case adapt_position_ids m3 of
                   Inl stop \<Rightarrow> Inl stop
                 | Inr (unsqueezed_position_ids, m4) \<Rightarrow>
                     Inr (\<lparr>p_max_context_len = max_context_len,
                           p_model_remaining_params = model_remaining_params,
                           p_sliding_window = sliding_window,
                           p_prev_max_seq_len = prev_max_seq_len,
                           p_unsqueezed_position_ids = unsqueezed_position_ids\<rparr>, m4)))"

text \<open>Lines 99-106: \<open>beam_idx\<close>.\<close>

definition remove_beam_idx :: "model \<Rightarrow> (outcome \<times> model) + model" where
  "remove_beam_idx m =
     (if has_parameter m ''beam_idx'' then
        (case input m ''beam_idx'' of
           None \<Rightarrow> Inl (LookupFailed, m)
         | Some t \<Rightarrow>
             (case dynamic_pointer_cast_Parameter m t of
                Some parameter \<Rightarrow> Inr (remove_parameter m parameter)
              | None \<Rightarrow> Inl (Returned False, m)))
      else Inr m)"

text \<open>Lines 108-113: \<open>attention_mask\<close>.\<close>

definition remove_attention_mask :: "model \<Rightarrow> (outcome \<times> model) + model" where
  "remove_attention_mask m =
     (case input m ''attention_mask'' of
        None \<Rightarrow> Inl (LookupFailed, m)
      | Some t \<Rightarrow>
          (case dynamic_pointer_cast_Parameter m t of
             Some parameter \<Rightarrow> Inr (remove_parameter m parameter)
           | None \<Rightarrow> Inl (Returned False, m)))"

text \<open>Lines 115-134: the removal loops and the three appends.\<close>

definition finish :: "pass_inputs \<Rightarrow> pass_context \<Rightarrow> node_id list \<Rightarrow> model \<Rightarrow> model" where
  "finish pin ctx results_to_remove m =
     (let m1 = foldl remove_parameter m (c_parameters_to_remove ctx);
          sinks = get_sinks m1;
          m2 = foldl remove_sink m1 sinks;
          m3 = foldl remove_result m2 results_to_remove;
          m4 = add_parameters m3 (c_kv_parameters ctx);
          m5 = add_parameters m4 (p_model_remaining_params pin);
          m6 = add_parameters m5 [p_max_context_len pin]
      in m6)"

text \<open>Lines 99-134.\<close>

definition finalize :: "pass_inputs \<Rightarrow> pass_context \<Rightarrow> node_id list \<Rightarrow> model \<Rightarrow> outcome \<times> model" where
  "finalize pin ctx results_to_remove m =
     (case remove_beam_idx m of
        Inl stop \<Rightarrow> stop
      | Inr m1 \<Rightarrow>
          (case remove_attention_mask m1 of
             Inl stop \<Rightarrow> stop
           | Inr m2 \<Rightarrow> (Returned True, finish pin ctx results_to_remove m2)))"

text \<open>
  The whole function. The four collections of lines 64-67 start empty; \<open>results_to_remove\<close>
  is not handed to the sub-passes. The macro of line 30 is instrumentation that is defined
  outside the file and is not part of the model. Where the source builds several nodes in
  the arguments of one call (lines 43-44, 47-51 and 77-78), the model builds them from left
  to right, inner calls first; the order only decides which index a new node gets.
\<close>

definition initial_context :: pass_context where
  "initial_context =
     \<lparr>c_kv_parameters = [], c_assignes_to_remove = [], c_parameters_to_remove = [],
      c_layer_index = 0\<rparr>"

definition run_on_model :: "passes \<Rightarrow> model \<Rightarrow> outcome \<times> model" where
  "run_on_model run_passes m =
     (case prepare m of
        Inl stop \<Rightarrow> stop
      | Inr (pin, m1) \<Rightarrow>
          (let results_to_remove = [];
               (ctx, m2) = run_passes pin initial_context m1
           in finalize pin ctx results_to_remove m2))"

section \<open>Auxiliary definitions for the statements\<close>

text \<open>A Parameter node after \<open>setName\<close>.\<close>

definition Parameter_node :: "element_type \<Rightarrow> partial_shape \<Rightarrow> string \<Rightarrow> node" where
  "Parameter_node et ps name =
     \<lparr>op = Parameter et ps, friendly_name = name, names = [name], args = []\<rparr>"

text \<open>The six node objects that lines 31-38 build, in the order they are built.\<close>

definition scheduling_nodes :: "node list" where
  "scheduling_nodes =
     [Parameter_node i32 [] ''max_context_len'',
      Parameter_node i32 [-1] ''context_lens'',
      Parameter_node i32 [-1] ''subsequence_begins'',
      Parameter_node i32 [-1] ''block_indices'',
      Parameter_node i32 [-1] ''block_indices_begins'',
      op_node (Constant i32 [] [0]) []]"

text \<open>The model after lines 42-45, for the Parameter \<open>t\<close> that \<open>input_ids\<close> resolves to.\<close>

definition input_ids_adapted :: "node_id \<Rightarrow> model \<Rightarrow> model" where
  "input_ids_adapted t m =
     replace_node t (length (heap m) + 1)
       ((set_partial_shape t [-1] m)\<lparr>heap := heap (set_partial_shape t [-1] m) @
          [op_node (Constant i32 [] [1]) [], op_node Unsqueeze [t, length (heap m)]]\<rparr>)"

text \<open>The model after lines 77-79, for the Parameter \<open>p\<close> held by \<open>position_ids\<close>.\<close>

definition position_ids_adapted :: "node_id \<Rightarrow> model \<Rightarrow> model" where
  "position_ids_adapted p m =
     replace_node p (length (heap m) + 1)
       (m\<lparr>heap := heap m @
          [op_node (Constant i32 [] [1]) [], op_node Unsqueeze [p, length (heap m)]]\<rparr>)"

text \<open>The five names of the scheduling metadata.\<close>

definition scheduling_names :: "string list" where
  "scheduling_names =
     [''max_context_len'', ''context_lens'', ''subsequence_begins'', ''block_indices'',
      ''block_indices_begins'']"

text \<open>How many entries of the model's Parameter list carry the name.\<close>

definition count_name :: "model \<Rightarrow> string \<Rightarrow> nat" where
  "count_name m name = length (filter (\<lambda>p. name \<in> set (get_names m p)) (m_parameters m))"

text \<open>
  The type of the model's Parameter list: in the source a \<open>ParameterVector\<close> holds handles
  to \<open>v0::Parameter\<close> nodes (lines 32, 64 and 66), and the input contract of section 6 of the
  spec has every named input be a Parameter. The store does not enforce it, so it is a
  predicate: every handle of the list points to a Parameter.
\<close>

definition inputs_are_Parameters :: "model \<Rightarrow> bool" where
  "inputs_are_Parameters m =
     list_all (\<lambda>p. dynamic_pointer_cast_Parameter m p = Some p) (m_parameters m)"

section \<open>Example models and sub-passes\<close>

text \<open>Sub-passes whose patterns match nothing.\<close>

definition no_passes :: passes where
  "no_passes pin ctx m = (ctx, m)"

text \<open>
  Sub-passes that stand for the rewriting of two attention layers: a key and a value cache
  Parameter per layer, in layer order, and a layer counter of two.
\<close>

definition example_passes :: passes where
  "example_passes pin ctx m =
     (let (k0, m1) = named_Parameter f32 [-1, -1, -1, -1] ''key_cache.0'' m;
          (v0, m2) = named_Parameter f32 [-1, -1, -1, -1] ''value_cache.0'' m1;
          (k1, m3) = named_Parameter f32 [-1, -1, -1, -1] ''key_cache.1'' m2;
          (v1, m4) = named_Parameter f32 [-1, -1, -1, -1] ''value_cache.1'' m3
      in (ctx\<lparr>c_kv_parameters := c_kv_parameters ctx @ [k0, v0, k1, v1],
               c_layer_index := c_layer_index ctx + 2\<rparr>, m4))"

text \<open>
  The end-to-end scenario of the spec: Parameters \<open>input_ids\<close>, \<open>attention_mask\<close> and
  \<open>beam_idx\<close>, two attention layers with a key sink and a value sink each, one Result.
\<close>

definition example_model :: model where
  "example_model =
     \<lparr>heap =
        [Parameter_node i64 [-1] ''input_ids'',
         Parameter_node i64 [-1, -1] ''attention_mask'',
         Parameter_node i32 [-1] ''beam_idx'',
         op_node (Other ''Embedding'') [0],
         op_node Assign [3],
         op_node Assign [3],
         op_node Assign [3],
         op_node Assign [3],
         \<lparr>op = Result, friendly_name = ''logits'', names = [''logits''], args = [3]\<rparr>],
      m_parameters = [0, 1, 2], m_results = [8], m_sinks = [4, 5, 6, 7]\<rparr>"

text \<open>A model whose \<open>attention_mask\<close> input is a computed node, not a Parameter.\<close>

definition computed_mask_model :: model where
  "computed_mask_model =
     \<lparr>heap =
        [Parameter_node i64 [-1] ''input_ids'',
         \<lparr>op = Other ''Concat'', friendly_name = ''mask'', names = [''attention_mask''], args = [0]\<rparr>],
      m_parameters = [0, 1], m_results = [], m_sinks = []\<rparr>"

text \<open>A model whose \<open>beam_idx\<close> input is a computed node, not a Parameter.\<close>

definition computed_beam_model :: model where
  "computed_beam_model =
     \<lparr>heap =
        [Parameter_node i64 [-1] ''input_ids'',
         Parameter_node i64 [-1, -1] ''attention_mask'',
         \<lparr>op = Other ''Range'', friendly_name = ''beam'', names = [''beam_idx''], args = [0]\<rparr>],
      m_parameters = [0, 1, 2], m_results = [], m_sinks = []\<rparr>"

text \<open>A model with the two mandatory inputs only.\<close>

definition plain_model :: model where
  "plain_model =
     \<lparr>heap =
        [Parameter_node i64 [-1] ''input_ids'',
         Parameter_node i64 [-1, -1] ''attention_mask'',
         op_node (Other ''Embedding'') [0]],
      m_parameters = [0, 1], m_results = [], m_sinks = []\<rparr>"

text \<open>A model whose \<open>position_ids\<close> input is a computed node, not a Parameter.\<close>

definition computed_position_model :: model where
  "computed_position_model =
     \<lparr>heap =
        [Parameter_node i64 [-1] ''input_ids'',
         Parameter_node i64 [-1, -1] ''attention_mask'',
         \<lparr>op = Other ''CumSum'', friendly_name = ''positions'', names = [''position_ids''],
            args = [1]\<rparr>],
      m_parameters = [0, 1, 2], m_results = [], m_sinks = []\<rparr>"

text \<open>A model with a \<open>position_ids\<close> Parameter of rank two and one consumer of it.\<close>

definition position_model :: model where
  "position_model =
     \<lparr>heap =
        [Parameter_node i64 [-1] ''input_ids'',
         Parameter_node i64 [-1, -1] ''attention_mask'',
         Parameter_node i64 [-1, -1] ''position_ids'',
         op_node (Other ''Gather'') [2]],
      m_parameters = [0, 1, 2], m_results = [], m_sinks = []\<rparr>"

text \<open>A model that has no input named \<open>input_ids\<close>.\<close>

definition no_input_ids_model :: model where
  "no_input_ids_model =
     \<lparr>heap =
        [Parameter_node i64 [-1] ''tokens'',
         Parameter_node i64 [-1, -1] ''attention_mask''],
      m_parameters = [0, 1], m_results = [], m_sinks = []\<rparr>"

text \<open>A model whose \<open>input_ids\<close> input is a computed node, not a Parameter.\<close>

definition computed_input_ids_model :: model where
  "computed_input_ids_model =
     \<lparr>heap =
        [Parameter_node i32 [-1, -1] ''tokens'',
         Parameter_node i64 [-1, -1] ''attention_mask'',
         \<lparr>op = Convert i64, friendly_name = ''ids'', names = [''input_ids''], args = [0]\<rparr>],
      m_parameters = [0, 1, 2], m_results = [], m_sinks = []\<rparr>"

text \<open>A model that already has a Parameter named \<open>context_lens\<close>.\<close>

definition clashing_model :: model where
  "clashing_model =
     \<lparr>heap =
        [Parameter_node i64 [-1] ''input_ids'',
         Parameter_node i64 [-1, -1] ''attention_mask'',
         Parameter_node i64 [-1] ''context_lens''],
      m_parameters = [0, 1, 2], m_results = [], m_sinks = []\<rparr>"

section \<open>Basic facts\<close>

subsection \<open>Node construction\<close>

text \<open>The steps that only build nodes, as equations on the store.\<close>

lemma named_Parameter_eq:
  "named_Parameter et ps name m = (length (heap m), m\<lparr>heap := heap m @ [Parameter_node et ps name]\<rparr>)"
  by (simp add: named_Parameter_def new_Parameter_def make_shared_def setName_def update_node_def
      Parameter_node_def op_node_def)

lemma Constant_create_eq:
  "Constant_create et sh vs m = (length (heap m), m\<lparr>heap := heap m @ [op_node (Constant et sh vs) []]\<rparr>)"
  by (simp add: Constant_create_def make_shared_def)

lemma new_op_eq:
  "new_op k as m = (length (heap m), m\<lparr>heap := heap m @ [op_node k as]\<rparr>)"
  by (simp add: new_op_def make_shared_def)

lemma length_scheduling_nodes [simp]: "length scheduling_nodes = 6"
  by (simp add: scheduling_nodes_def)

lemma scheduling_parameters_eq:
  "scheduling_parameters m =
     ((length (heap m),
       [length (heap m) + 1, length (heap m) + 2, length (heap m) + 3, length (heap m) + 4],
       length (heap m) + 5),
      m\<lparr>heap := heap m @ scheduling_nodes\<rparr>)"
  by (simp add: scheduling_parameters_def named_Parameter_eq Constant_create_eq eval_nat_numeral
      scheduling_nodes_def)

lemma make_prev_max_seq_len_eq:
  "make_prev_max_seq_len mcl uii m =
     (length (heap m) + 5,
      m\<lparr>heap := heap m @
         [op_node ShapeOf [uii],
          op_node (Constant i64 [] [1]) [],
          op_node (Constant i64 [] [0]) [],
          op_node Gather [length (heap m), length (heap m) + 1, length (heap m) + 2],
          op_node (Convert i32) [length (heap m) + 3],
          op_node Subtract [mcl, length (heap m) + 4]]\<rparr>)"
  by (simp add: make_prev_max_seq_len_def Constant_create_eq new_op_eq eval_nat_numeral)

subsection \<open>Lookups and casts\<close>

text \<open>What a successful lookup and a successful cast say about the node, and when two models resolve a name alike.\<close>

lemma has_parameter_loop_find:
  "has_parameter_loop m name ts \<longleftrightarrow> find (\<lambda>t. name \<in> set (get_names m t)) ts \<noteq> None"
  by (induction ts) auto

lemma has_parameter_input: "has_parameter m name \<longleftrightarrow> input m name \<noteq> None"
  by (simp add: has_parameter_def input_def has_parameter_loop_find)

lemma input_SomeD:
  assumes "input m name = Some t"
  shows "t \<in> set (m_parameters m)" and "name \<in> set (get_names m t)"
    and "t < length (heap m)" and "name \<in> set (names (heap m ! t))"
proof -
  from assms obtain i where i: "i < length (m_parameters m)" "m_parameters m ! i = t"
    "name \<in> set (get_names m t)"
    by (auto simp: input_def inputs_def find_Some_iff)
  then show "t \<in> set (m_parameters m)" "name \<in> set (get_names m t)" by auto
  from i(3) show "t < length (heap m)" "name \<in> set (names (heap m ! t))"
    by (auto simp: get_names_def get_node_def split: if_splits)
qed

lemma cast_SomeD:
  assumes "dynamic_pointer_cast_Parameter m t = Some p"
  shows "p = t" and "t < length (heap m)" and "\<exists>et ps. op (heap m ! t) = Parameter et ps"
  using assms
  by (auto simp: dynamic_pointer_cast_Parameter_def get_node_def split: if_splits option.splits op_type.splits)

lemma get_node_SomeD: "get_node m i = Some nd \<Longrightarrow> i < length (heap m) \<and> heap m ! i = nd"
  by (auto simp: get_node_def split: if_splits)

lemma get_names_get_node: "get_node m i = Some nd \<Longrightarrow> get_names m i = names nd"
  by (simp add: get_names_def)

lemma get_names_heap_eq: "heap m' = heap m \<Longrightarrow> get_names m' p = get_names m p"
  by (simp add: get_names_def get_node_def)

lemma input_cong:
  assumes "m_parameters m' = m_parameters m"
    and "\<And>t. t \<in> set (m_parameters m) \<Longrightarrow> name \<in> set (get_names m' t) \<longleftrightarrow> name \<in> set (get_names m t)"
  shows "input m' name = input m name"
  using assms by (simp add: input_def inputs_def cong: find_cong)

lemma get_names_heap_append:
  assumes "\<And>x. x \<in> set ys \<Longrightarrow> name \<notin> set (names x)"
  shows "name \<in> set (get_names (m\<lparr>heap := heap m @ ys\<rparr>) t) \<longleftrightarrow> name \<in> set (get_names m t)"
  using assms by (auto simp: get_names_def get_node_def nth_append)

lemma get_names_heap_append_nameless:
  assumes "\<And>x. x \<in> set ys \<Longrightarrow> names x = []"
  shows "get_names (m\<lparr>heap := heap m @ ys\<rparr>) i = get_names m i"
  using assms by (auto simp: get_names_def get_node_def nth_append)

lemma input_heap_append:
  assumes "\<And>x. x \<in> set ys \<Longrightarrow> name \<notin> set (names x)"
  shows "input (m\<lparr>heap := heap m @ ys\<rparr>) name = input m name"
  by (rule input_cong) (simp_all add: get_names_heap_append assms)

lemma get_node_heap_append:
  "get_node (m\<lparr>heap := heap m @ ys\<rparr>) i =
     (if i < length (heap m) then get_node m i
      else if i - length (heap m) < length ys then Some (ys ! (i - length (heap m))) else None)"
  by (auto simp: get_node_def nth_append)

lemma cast_heap_append:
  "i < length (heap m) \<Longrightarrow>
   dynamic_pointer_cast_Parameter (m\<lparr>heap := heap m @ ys\<rparr>) i = dynamic_pointer_cast_Parameter m i"
  by (simp add: dynamic_pointer_cast_Parameter_def get_node_heap_append)

lemma scheduling_nodes_names:
  "x \<in> set scheduling_nodes \<Longrightarrow> ''input_ids'' \<notin> set (names x) \<and> ''position_ids'' \<notin> set (names x)"
  by (auto simp: scheduling_nodes_def Parameter_node_def op_node_def)

lemma scheduling_nodes_nth:
  "k < 5 \<Longrightarrow> args (scheduling_nodes ! k) = [] \<and>
     ''input_ids'' \<notin> set (names (scheduling_nodes ! k)) \<and>
     ''position_ids'' \<notin> set (names (scheduling_nodes ! k))"
  by (auto simp: scheduling_nodes_def Parameter_node_def less_Suc_eq eval_nat_numeral)

subsection \<open>Shape relaxation and rewiring\<close>

text \<open>The effect of \<open>set_partial_shape\<close> and \<open>replace_node\<close> on lookups.\<close>

lemma length_heap_set_partial_shape [simp]: "length (heap (set_partial_shape t ps m)) = length (heap m)"
  by (simp add: set_partial_shape_def update_node_def)

lemma lists_set_partial_shape [simp]:
  "m_parameters (set_partial_shape t ps m) = m_parameters m"
  "m_results (set_partial_shape t ps m) = m_results m"
  "m_sinks (set_partial_shape t ps m) = m_sinks m"
  by (simp_all add: set_partial_shape_def update_node_def)

lemma get_node_set_partial_shape:
  "get_node (set_partial_shape t ps m) i =
     (if i = t then map_option (\<lambda>n. case op n of Parameter et old \<Rightarrow> n\<lparr>op := Parameter et ps\<rparr> | _ \<Rightarrow> n) (get_node m i)
      else get_node m i)"
  by (simp add: set_partial_shape_def update_node_def get_node_def)

lemma get_names_set_partial_shape [simp]: "get_names (set_partial_shape t ps m) i = get_names m i"
  by (auto simp: get_names_def get_node_set_partial_shape split: option.splits op_type.splits)

lemma cast_set_partial_shape [simp]:
  "dynamic_pointer_cast_Parameter (set_partial_shape t ps m) i = dynamic_pointer_cast_Parameter m i"
  by (auto simp: dynamic_pointer_cast_Parameter_def get_node_set_partial_shape
      split: option.splits op_type.splits)

lemma length_heap_replace_node [simp]: "length (heap (replace_node t r m)) = length (heap m)"
  by (simp add: replace_node_def)

lemma lists_replace_node [simp]:
  "m_parameters (replace_node t r m) = m_parameters m"
  "m_results (replace_node t r m) = m_results m"
  "m_sinks (replace_node t r m) = m_sinks m"
  by (simp_all add: replace_node_def)

lemma get_node_replace_node: "get_node (replace_node t r m) i = map_option (rewire t r) (get_node m i)"
  by (simp add: replace_node_def get_node_def)

lemma get_names_replace_node [simp]: "get_names (replace_node t r m) i = get_names m i"
  by (auto simp: get_names_def get_node_replace_node rewire_def split: option.splits)

lemma cast_replace_node [simp]:
  "dynamic_pointer_cast_Parameter (replace_node t r m) i = dynamic_pointer_cast_Parameter m i"
  by (auto simp: dynamic_pointer_cast_Parameter_def get_node_replace_node rewire_def
      split: option.splits op_type.splits)

lemma rewire_id: "t \<notin> set (args nd) \<Longrightarrow> rewire t r nd = nd"
proof -
  assume "t \<notin> set (args nd)"
  then have "map (\<lambda>a. if a = t then r else a) (args nd) = args nd"
    by (intro map_idI) auto
  then show ?thesis by (simp add: rewire_def)
qed

subsection \<open>The input adapters\<close>

text \<open>Lines 40-45 and 69-79 as equations, and the nodes they leave as they are.\<close>

lemma adapt_input_ids_eq:
  "adapt_input_ids m =
     (case input m ''input_ids'' of
        None \<Rightarrow> Inl (LookupFailed, m)
      | Some t \<Rightarrow>
          (case dynamic_pointer_cast_Parameter m t of
             None \<Rightarrow> Inl (NullDereference, m)
           | Some p \<Rightarrow> Inr (length (heap m) + 1, input_ids_adapted t m)))"
  by (auto simp: adapt_input_ids_def input_ids_adapted_def Constant_create_eq new_op_eq Let_def
      split: option.splits dest: cast_SomeD(1))

lemma adapt_position_ids_eq:
  "adapt_position_ids m =
     (if \<not> has_parameter m ''position_ids'' then
        Inr (length (heap m) + 2,
             position_ids_adapted (length (heap m))
               (m\<lparr>heap := heap m @ [Parameter_node i64 [-1] ''position_ids''],
                  m_parameters := m_parameters m @ [length (heap m)]\<rparr>))
      else
        (case input m ''position_ids'' of
           None \<Rightarrow> Inl (LookupFailed, m)
         | Some t \<Rightarrow>
             (case dynamic_pointer_cast_Parameter m t of
                None \<Rightarrow> Inl (NullDereference, m)
              | Some p \<Rightarrow>
                  Inr (length (heap m) + 1, position_ids_adapted t (set_partial_shape t [-1] m)))))"
  by (auto simp: adapt_position_ids_def position_ids_adapted_def Constant_create_eq new_op_eq
      named_Parameter_eq add_parameters_def eval_nat_numeral Let_def
      split: option.splits dest: cast_SomeD(1))

lemma adapt_position_ids_no_boolean: "adapt_position_ids m \<noteq> Inl (Returned b, m')"
  by (auto simp: adapt_position_ids_eq split: option.splits)

lemma input_ids_adapted_lists [simp]:
  "m_parameters (input_ids_adapted t m) = m_parameters m"
  "m_results (input_ids_adapted t m) = m_results m"
  "m_sinks (input_ids_adapted t m) = m_sinks m"
  "length (heap (input_ids_adapted t m)) = length (heap m) + 2"
  by (simp_all add: input_ids_adapted_def)

lemma position_ids_adapted_lists [simp]:
  "m_parameters (position_ids_adapted t m) = m_parameters m"
  "m_results (position_ids_adapted t m) = m_results m"
  "m_sinks (position_ids_adapted t m) = m_sinks m"
  "length (heap (position_ids_adapted t m)) = length (heap m) + 2"
  by (simp_all add: position_ids_adapted_def)

lemma get_names_input_ids_adapted [simp]: "get_names (input_ids_adapted t m) i = get_names m i"
proof -
  have "get_names (input_ids_adapted t m) i =
      get_names ((set_partial_shape t [-1] m)\<lparr>heap := heap (set_partial_shape t [-1] m) @
          [op_node (Constant i32 [] [1]) [], op_node Unsqueeze [t, length (heap m)]]\<rparr>) i"
    by (simp add: input_ids_adapted_def)
  also have "\<dots> = get_names (set_partial_shape t [-1] m) i"
    by (rule get_names_heap_append_nameless) (auto simp: op_node_def)
  finally show ?thesis by simp
qed

lemma cast_input_ids_adapted:
  "i < length (heap m) \<Longrightarrow>
   dynamic_pointer_cast_Parameter (input_ids_adapted t m) i = dynamic_pointer_cast_Parameter m i"
proof -
  assume i: "i < length (heap m)"
  have "dynamic_pointer_cast_Parameter (input_ids_adapted t m) i =
      dynamic_pointer_cast_Parameter
        ((set_partial_shape t [-1] m)\<lparr>heap := heap (set_partial_shape t [-1] m) @
          [op_node (Constant i32 [] [1]) [], op_node Unsqueeze [t, length (heap m)]]\<rparr>) i"
    by (simp add: input_ids_adapted_def)
  also from i have "\<dots> = dynamic_pointer_cast_Parameter (set_partial_shape t [-1] m) i"
    by (intro cast_heap_append) simp
  finally show ?thesis by simp
qed

lemma get_node_input_ids_adapted_old:
  "i < length (heap m) \<Longrightarrow>
   get_node (input_ids_adapted t m) i =
     map_option (rewire t (length (heap m) + 1)) (get_node (set_partial_shape t [-1] m) i)"
  by (simp add: input_ids_adapted_def get_node_replace_node get_node_heap_append)

lemma get_node_input_ids_adapted_new:
  assumes "t < length (heap m)"
  shows "get_node (input_ids_adapted t m) (length (heap m)) = Some (op_node (Constant i32 [] [1]) [])"
    and "get_node (input_ids_adapted t m) (length (heap m) + 1) =
           Some (op_node Unsqueeze [length (heap m) + 1, length (heap m)])"
  using assms
  by (simp_all add: input_ids_adapted_def get_node_replace_node get_node_heap_append rewire_def
      op_node_def)

lemma get_node_position_ids_adapted_old:
  "i < length (heap m) \<Longrightarrow>
   get_node (position_ids_adapted p m) i = map_option (rewire p (length (heap m) + 1)) (get_node m i)"
  by (simp add: position_ids_adapted_def get_node_replace_node get_node_heap_append)

lemma get_node_position_ids_adapted_new:
  "get_node (position_ids_adapted p m) (length (heap m)) =
     Some (op_node (Constant i32 [] [1]) [])"
  "get_node (position_ids_adapted p m) (length (heap m) + 1) =
     Some (rewire p (length (heap m) + 1) (op_node Unsqueeze [p, length (heap m)]))"
  by (simp_all add: position_ids_adapted_def get_node_replace_node get_node_heap_append rewire_def
      op_node_def)

lemma position_ids_adapted_no_consumer:
  assumes "p \<noteq> length (heap m) + 1" and "get_node (position_ids_adapted p m) i = Some nd"
  shows "p \<notin> set (args nd)"
  using assms
  by (auto simp: position_ids_adapted_def get_node_replace_node rewire_def)

lemma adapt_input_ids_keeps:
  assumes a: "adapt_input_ids m = Inr (u, m')"
    and g: "get_node m i = Some nd"
    and n: "''input_ids'' \<notin> set (names nd)"
    and as: "\<And>a. a \<in> set (args nd) \<Longrightarrow> ''input_ids'' \<notin> set (get_names m a)"
  shows "get_node m' i = Some nd"
proof -
  from a obtain t where t: "input m ''input_ids'' = Some t" and m': "m' = input_ids_adapted t m"
    by (auto simp: adapt_input_ids_eq split: option.splits)
  from input_SomeD(2)[OF t] have tn: "''input_ids'' \<in> set (get_names m t)" .
  from g n tn have it: "i \<noteq> t" by (auto simp: get_names_get_node)
  from as tn have ta: "t \<notin> set (args nd)" by blast
  from g have "i < length (heap m)" by (simp add: get_node_SomeD)
  then show ?thesis
    using it g ta by (simp add: m' get_node_input_ids_adapted_old get_node_set_partial_shape rewire_id)
qed

lemma make_prev_max_seq_len_keeps:
  "get_node m i = Some nd \<Longrightarrow> get_node (snd (make_prev_max_seq_len a b m)) i = Some nd"
  by (auto simp: make_prev_max_seq_len_eq get_node_heap_append dest: get_node_SomeD)

lemma adapt_position_ids_keeps:
  assumes a: "adapt_position_ids m = Inr (u, m')"
    and g: "get_node m i = Some nd"
    and n: "''position_ids'' \<notin> set (names nd)"
    and as: "\<And>a. a \<in> set (args nd) \<Longrightarrow>
               a < length (heap m) \<and> ''position_ids'' \<notin> set (get_names m a)"
  shows "get_node m' i = Some nd"
proof (cases "has_parameter m ''position_ids''")
  case False
  with a have m': "m' = position_ids_adapted (length (heap m))
      (m\<lparr>heap := heap m @ [Parameter_node i64 [-1] ''position_ids''],
         m_parameters := m_parameters m @ [length (heap m)]\<rparr>)"
    by (simp add: adapt_position_ids_eq)
  let ?M = "m\<lparr>heap := heap m @ [Parameter_node i64 [-1] ''position_ids''],
               m_parameters := m_parameters m @ [length (heap m)]\<rparr>"
  from as have na: "length (heap m) \<notin> set (args nd)" by auto
  from g have i: "i < length (heap m)" by (simp add: get_node_SomeD)
  with g have gM: "get_node ?M i = Some nd" by (simp add: get_node_def nth_append)
  from i have "i < length (heap ?M)" by simp
  then have "get_node (position_ids_adapted (length (heap m)) ?M) i =
      map_option (rewire (length (heap m)) (length (heap ?M) + 1)) (get_node ?M i)"
    by (rule get_node_position_ids_adapted_old)
  with gM na show ?thesis by (simp add: m' rewire_id)
next
  case True
  with a obtain t where t: "input m ''position_ids'' = Some t"
    and m': "m' = position_ids_adapted t (set_partial_shape t [-1] m)"
    by (auto simp: adapt_position_ids_eq split: option.splits)
  from input_SomeD(2)[OF t] have tn: "''position_ids'' \<in> set (get_names m t)" .
  from g n tn have it: "i \<noteq> t" by (auto simp: get_names_get_node)
  from as tn have ta: "t \<notin> set (args nd)" by blast
  from g have "i < length (heap m)" by (simp add: get_node_SomeD)
  then show ?thesis
    using it g ta
    by (simp add: m' get_node_position_ids_adapted_old get_node_set_partial_shape rewire_id)
qed

subsection \<open>Lines 31-81\<close>

text \<open>What the model and the values handed to the sub-passes are when the run gets that far, and how it stops when it does not.\<close>

lemma prepare_eq:
  "prepare m =
     (case adapt_input_ids (m\<lparr>heap := heap m @ scheduling_nodes\<rparr>) of
        Inl stop \<Rightarrow> Inl stop
      | Inr (unsqueezed_input_ids, m2) \<Rightarrow>
          (case adapt_position_ids
                  (snd (make_prev_max_seq_len (length (heap m)) unsqueezed_input_ids m2)) of
             Inl stop \<Rightarrow> Inl stop
           | Inr (unsqueezed_position_ids, m4) \<Rightarrow>
               Inr (\<lparr>p_max_context_len = length (heap m),
                     p_model_remaining_params =
                       [length (heap m) + 1, length (heap m) + 2, length (heap m) + 3,
                        length (heap m) + 4],
                     p_sliding_window = length (heap m) + 5,
                     p_prev_max_seq_len = length (heap m2) + 5,
                     p_unsqueezed_position_ids = unsqueezed_position_ids\<rparr>, m4)))"
  by (simp add: prepare_def scheduling_parameters_eq make_prev_max_seq_len_eq split: sum.splits prod.splits)

lemma prepare_InrD:
  assumes "prepare m = Inr (pin, m1)"
  obtains u m2 up where
    "adapt_input_ids (m\<lparr>heap := heap m @ scheduling_nodes\<rparr>) = Inr (u, m2)"
    "adapt_position_ids (snd (make_prev_max_seq_len (length (heap m)) u m2)) = Inr (up, m1)"
    "pin = \<lparr>p_max_context_len = length (heap m),
            p_model_remaining_params =
              [length (heap m) + 1, length (heap m) + 2, length (heap m) + 3, length (heap m) + 4],
            p_sliding_window = length (heap m) + 5,
            p_prev_max_seq_len = length (heap m2) + 5,
            p_unsqueezed_position_ids = up\<rparr>"
  using assms by (auto simp: prepare_eq split: sum.splits prod.splits)

lemma prepare_stop:
  assumes "prepare m = Inl (out, m')"
  shows "out = LookupFailed \<or> out = NullDereference" and "m_results m' = m_results m"
    and "m_sinks m' = m_sinks m"
  using assms
  by (auto simp: prepare_eq adapt_input_ids_eq adapt_position_ids_eq make_prev_max_seq_len_eq
      split: sum.splits prod.splits option.splits if_splits)

lemma prepare_results:
  assumes "prepare m = Inr (pin, m1)"
  shows "m_results m1 = m_results m" and "m_sinks m1 = m_sinks m"
  using assms
  by (auto simp: prepare_eq adapt_input_ids_eq adapt_position_ids_eq make_prev_max_seq_len_eq
      split: sum.splits prod.splits option.splits if_splits)

lemma prepare_pass_inputs:
  assumes "prepare m = Inr (pin, m1)"
  shows "p_max_context_len pin = length (heap m)"
    and "p_model_remaining_params pin =
       [length (heap m) + 1, length (heap m) + 2, length (heap m) + 3, length (heap m) + 4]"
  using assms by (auto elim!: prepare_InrD)

lemma prepare_scheduling_nodes:
  assumes p: "prepare m = Inr (pin, m1)" and k: "k < 5"
  shows "get_node m1 (length (heap m) + k) = Some (scheduling_nodes ! k)"
proof -
  from p obtain u m2 up where
    a: "adapt_input_ids (m\<lparr>heap := heap m @ scheduling_nodes\<rparr>) = Inr (u, m2)" and
    b: "adapt_position_ids (snd (make_prev_max_seq_len (length (heap m)) u m2)) = Inr (up, m1)"
    by (rule prepare_InrD)
  from k have 0: "get_node (m\<lparr>heap := heap m @ scheduling_nodes\<rparr>) (length (heap m) + k) =
      Some (scheduling_nodes ! k)"
    by (simp add: get_node_heap_append scheduling_nodes_def)
  have 1: "get_node m2 (length (heap m) + k) = Some (scheduling_nodes ! k)"
    by (rule adapt_input_ids_keeps[OF a 0]) (simp_all add: scheduling_nodes_nth k)
  have 2: "get_node (snd (make_prev_max_seq_len (length (heap m)) u m2)) (length (heap m) + k) =
      Some (scheduling_nodes ! k)"
    by (rule make_prev_max_seq_len_keeps[OF 1])
  show ?thesis
    by (rule adapt_position_ids_keeps[OF b 2]) (simp_all add: scheduling_nodes_nth k)
qed

lemma prepare_chain:
  assumes p: "prepare m = Inr (pin, m1)"
  shows "adapt_input_ids (snd (scheduling_parameters m)) \<noteq> Inl x"
    and "fst (projr (adapt_input_ids (snd (scheduling_parameters m)))) = length (heap m) + 7"
    and "get_node m1 (length (heap m) + 7) =
           Some (op_node Unsqueeze [length (heap m) + 7, length (heap m) + 6])"
    and "get_node m1 (length (heap m) + 8) = Some (op_node ShapeOf [length (heap m) + 7])"
    and "get_node m1 (length (heap m) + 9) = Some (op_node (Constant i64 [] [1]) [])"
    and "get_node m1 (length (heap m) + 10) = Some (op_node (Constant i64 [] [0]) [])"
    and "get_node m1 (length (heap m) + 11) =
           Some (op_node Gather [length (heap m) + 8, length (heap m) + 9, length (heap m) + 10])"
    and "get_node m1 (length (heap m) + 12) = Some (op_node (Convert i32) [length (heap m) + 11])"
    and "get_node m1 (length (heap m) + 13) =
           Some (op_node Subtract [length (heap m), length (heap m) + 12])"
    and "p_prev_max_seq_len pin = length (heap m) + 13"
proof -
  let ?n = "length (heap m)"
  let ?M0 = "m\<lparr>heap := heap m @ scheduling_nodes\<rparr>"
  from p obtain u m2 up where
    a: "adapt_input_ids ?M0 = Inr (u, m2)" and
    b: "adapt_position_ids (snd (make_prev_max_seq_len ?n u m2)) = Inr (up, m1)" and
    pin: "pin = \<lparr>p_max_context_len = ?n,
            p_model_remaining_params = [?n + 1, ?n + 2, ?n + 3, ?n + 4],
            p_sliding_window = ?n + 5,
            p_prev_max_seq_len = length (heap m2) + 5,
            p_unsqueezed_position_ids = up\<rparr>"
    by (rule prepare_InrD)
  have l0: "length (heap ?M0) = ?n + 6" by simp
  from a obtain t where t: "input ?M0 ''input_ids'' = Some t"
    and u: "u = ?n + 7" and m2: "m2 = input_ids_adapted t ?M0"
    by (auto simp: adapt_input_ids_eq split: option.splits)
  from input_SomeD(3)[OF t] have tl: "t < length (heap ?M0)" .
  have l2: "length (heap m2) = ?n + 8" by (simp add: m2 l0)
  let ?M3 = "snd (make_prev_max_seq_len ?n u m2)"
  have M3: "?M3 = m2\<lparr>heap := heap m2 @
         [op_node ShapeOf [?n + 7],
          op_node (Constant i64 [] [1]) [],
          op_node (Constant i64 [] [0]) [],
          op_node Gather [?n + 8, ?n + 9, ?n + 10],
          op_node (Convert i32) [?n + 11],
          op_node Subtract [?n, ?n + 12]]\<rparr>"
    by (simp add: make_prev_max_seq_len_eq l2 u add.commute)
  have l3: "length (heap ?M3) = ?n + 14" by (simp add: M3 l2)
  have g7: "get_node ?M3 (?n + 7) = Some (op_node Unsqueeze [?n + 7, ?n + 6])"
    using get_node_input_ids_adapted_new(2)[OF tl]
    by (simp add: M3 get_node_heap_append l2 m2[symmetric] l0 add.commute)
  have g6: "get_node ?M3 (?n + 6) = Some (op_node (Constant i32 [] [1]) [])"
    using get_node_input_ids_adapted_new(1)[OF tl]
    by (simp add: M3 get_node_heap_append l2 m2[symmetric] l0 add.commute)
  have g0: "get_node ?M3 ?n = Some (scheduling_nodes ! 0)"
  proof -
    have "get_node ?M0 (?n + 0) = Some (scheduling_nodes ! 0)"
      by (simp add: get_node_heap_append scheduling_nodes_def)
    then have "get_node m2 (?n + 0) = Some (scheduling_nodes ! 0)"
      by (rule adapt_input_ids_keeps[OF a]) (simp_all add: scheduling_nodes_nth)
    then show ?thesis using make_prev_max_seq_len_keeps by simp
  qed
  have g8: "get_node ?M3 (?n + 8) = Some (op_node ShapeOf [?n + 7])"
    and g9: "get_node ?M3 (?n + 9) = Some (op_node (Constant i64 [] [1]) [])"
    and g10: "get_node ?M3 (?n + 10) = Some (op_node (Constant i64 [] [0]) [])"
    and g11: "get_node ?M3 (?n + 11) = Some (op_node Gather [?n + 8, ?n + 9, ?n + 10])"
    and g12: "get_node ?M3 (?n + 12) = Some (op_node (Convert i32) [?n + 11])"
    and g13: "get_node ?M3 (?n + 13) = Some (op_node Subtract [?n, ?n + 12])"
    by (simp_all add: M3 get_node_heap_append l2)
  note gs = g0 g6 g7 g8 g9 g10 g11 g12 g13
  have nm: "get_names ?M3 (?n + k) = []" if "k \<in> {6, 7, 8, 9, 10, 11, 12}" for k
    using that gs by (auto simp: get_names_def op_node_def)
  have nm0: "get_names ?M3 ?n = [''max_context_len'']"
    using g0 by (simp add: get_names_def scheduling_nodes_def Parameter_node_def)
  show "adapt_input_ids (snd (scheduling_parameters m)) \<noteq> Inl x"
    using a by (simp add: scheduling_parameters_eq)
  show "fst (projr (adapt_input_ids (snd (scheduling_parameters m)))) = ?n + 7"
    using a u by (simp add: scheduling_parameters_eq)
  show "get_node m1 (?n + 7) = Some (op_node Unsqueeze [?n + 7, ?n + 6])"
    by (rule adapt_position_ids_keeps[OF b g7]) (auto simp: op_node_def l3 nm)
  show "get_node m1 (?n + 8) = Some (op_node ShapeOf [?n + 7])"
    by (rule adapt_position_ids_keeps[OF b g8]) (auto simp: op_node_def l3 nm)
  show "get_node m1 (?n + 9) = Some (op_node (Constant i64 [] [1]) [])"
    by (rule adapt_position_ids_keeps[OF b g9]) (auto simp: op_node_def l3 nm)
  show "get_node m1 (?n + 10) = Some (op_node (Constant i64 [] [0]) [])"
    by (rule adapt_position_ids_keeps[OF b g10]) (auto simp: op_node_def l3 nm)
  show "get_node m1 (?n + 11) = Some (op_node Gather [?n + 8, ?n + 9, ?n + 10])"
    by (rule adapt_position_ids_keeps[OF b g11]) (auto simp: op_node_def l3 nm)
  show "get_node m1 (?n + 12) = Some (op_node (Convert i32) [?n + 11])"
    by (rule adapt_position_ids_keeps[OF b g12]) (auto simp: op_node_def l3 nm)
  show "get_node m1 (?n + 13) = Some (op_node Subtract [?n, ?n + 12])"
    by (rule adapt_position_ids_keeps[OF b g13]) (auto simp: op_node_def l3 nm nm0)
  show "p_prev_max_seq_len pin = ?n + 13"
    by (simp add: pin l2)
qed

lemma prepare_input_ids_failure:
  "input m ''input_ids'' = None \<Longrightarrow>
     prepare m = Inl (LookupFailed, m\<lparr>heap := heap m @ scheduling_nodes\<rparr>)"
  "input m ''input_ids'' = Some a \<Longrightarrow> dynamic_pointer_cast_Parameter m a = None \<Longrightarrow>
     prepare m = Inl (NullDereference, m\<lparr>heap := heap m @ scheduling_nodes\<rparr>)"
proof -
  assume "input m ''input_ids'' = None"
  then have "input (m\<lparr>heap := heap m @ scheduling_nodes\<rparr>) ''input_ids'' = None"
    by (simp add: input_heap_append scheduling_nodes_names)
  then show "prepare m = Inl (LookupFailed, m\<lparr>heap := heap m @ scheduling_nodes\<rparr>)"
    by (simp add: prepare_eq adapt_input_ids_eq)
next
  assume a: "input m ''input_ids'' = Some a" and c: "dynamic_pointer_cast_Parameter m a = None"
  from a have "input (m\<lparr>heap := heap m @ scheduling_nodes\<rparr>) ''input_ids'' = Some a"
    by (simp add: input_heap_append scheduling_nodes_names)
  moreover from c input_SomeD(3)[OF a]
  have "dynamic_pointer_cast_Parameter (m\<lparr>heap := heap m @ scheduling_nodes\<rparr>) a = None"
    by (simp add: cast_heap_append)
  ultimately show "prepare m = Inl (NullDereference, m\<lparr>heap := heap m @ scheduling_nodes\<rparr>)"
    by (simp add: prepare_eq adapt_input_ids_eq)
qed

lemma prepare_position_ids_failure:
  assumes a: "input m ''input_ids'' = Some a"
    and ca: "dynamic_pointer_cast_Parameter m a = Some a"
    and t: "input m ''position_ids'' = Some t"
    and ct: "dynamic_pointer_cast_Parameter m t = None"
  shows "\<exists>m'. prepare m = Inl (NullDereference, m') \<and>
           adapt_position_ids m' = Inl (NullDereference, m')"
proof -
  let ?M0 = "m\<lparr>heap := heap m @ scheduling_nodes\<rparr>"
  let ?u = "length (heap ?M0) + 1"
  let ?m2 = "input_ids_adapted a ?M0"
  let ?M3 = "snd (make_prev_max_seq_len (length (heap m)) ?u ?m2)"
  from input_SomeD(3)[OF a] have al: "a < length (heap m)" .
  from input_SomeD(3)[OF t] have tl: "t < length (heap m)" .
  have a0: "input ?M0 ''input_ids'' = Some a"
    using a by (simp add: input_heap_append scheduling_nodes_names)
  have ca0: "dynamic_pointer_cast_Parameter ?M0 a = Some a"
    using ca al by (simp add: cast_heap_append)
  from a0 ca0 have ad: "adapt_input_ids ?M0 = Inr (?u, ?m2)"
    by (simp add: adapt_input_ids_eq)
  have t0: "input ?M0 ''position_ids'' = Some t"
    using t by (simp add: input_heap_append scheduling_nodes_names)
  have t2: "input ?m2 ''position_ids'' = Some t"
    using t0 by (simp add: input_cong[of ?m2 ?M0])
  have M3: "?M3 = ?m2\<lparr>heap := heap ?m2 @
         [op_node ShapeOf [?u],
          op_node (Constant i64 [] [1]) [],
          op_node (Constant i64 [] [0]) [],
          op_node Gather [length (heap ?m2), length (heap ?m2) + 1, length (heap ?m2) + 2],
          op_node (Convert i32) [length (heap ?m2) + 3],
          op_node Subtract [length (heap m), length (heap ?m2) + 4]]\<rparr>"
    by (simp add: make_prev_max_seq_len_eq)
  have t3: "input ?M3 ''position_ids'' = Some t"
    unfolding M3 using t2 by (subst input_heap_append) (auto simp: op_node_def)
  have c0: "dynamic_pointer_cast_Parameter ?M0 t = None"
    using ct tl by (simp add: cast_heap_append)
  have c2: "dynamic_pointer_cast_Parameter ?m2 t = None"
    using c0 tl by (simp add: cast_input_ids_adapted)
  have c3: "dynamic_pointer_cast_Parameter ?M3 t = None"
    unfolding M3 using c2 tl by (subst cast_heap_append) simp_all
  from t3 c3 have n: "adapt_position_ids ?M3 = Inl (NullDereference, ?M3)"
    by (simp add: adapt_position_ids_eq has_parameter_input)
  with ad have "prepare m = Inl (NullDereference, ?M3)"
    by (simp add: prepare_eq)
  with n show ?thesis by blast
qed

subsection \<open>Lines 99-134\<close>

text \<open>The removal loops as filters, and the finalizer case by case.\<close>

lemma filter_removeAll: "filter P (removeAll p xs) = filter (\<lambda>x. x \<noteq> p \<and> P x) xs"
  by (induction xs) auto

lemma foldl_remove_parameter:
  "foldl remove_parameter m ps = m\<lparr>m_parameters := filter (\<lambda>p. p \<notin> set ps) (m_parameters m)\<rparr>"
proof (induction ps arbitrary: m)
  case Nil
  show ?case by simp
next
  case (Cons p ps)
  have "foldl remove_parameter m (p # ps) = foldl remove_parameter (remove_parameter m p) ps" by simp
  also have "\<dots> = (remove_parameter m p)\<lparr>m_parameters := filter (\<lambda>x. x \<notin> set ps) (m_parameters (remove_parameter m p))\<rparr>"
    by (rule Cons.IH)
  also have "\<dots> = m\<lparr>m_parameters := filter (\<lambda>x. x \<notin> set (p # ps)) (m_parameters m)\<rparr>"
    by (simp add: remove_parameter_def filter_removeAll)
  finally show ?case .
qed

lemma foldl_remove_sink:
  "foldl remove_sink m ss = m\<lparr>m_sinks := filter (\<lambda>s. s \<notin> set ss) (m_sinks m)\<rparr>"
proof (induction ss arbitrary: m)
  case Nil
  show ?case by simp
next
  case (Cons s ss)
  have "foldl remove_sink m (s # ss) = foldl remove_sink (remove_sink m s) ss" by simp
  also have "\<dots> = (remove_sink m s)\<lparr>m_sinks := filter (\<lambda>x. x \<notin> set ss) (m_sinks (remove_sink m s))\<rparr>"
    by (rule Cons.IH)
  also have "\<dots> = m\<lparr>m_sinks := filter (\<lambda>x. x \<notin> set (s # ss)) (m_sinks m)\<rparr>"
    by (simp add: remove_sink_def filter_removeAll)
  finally show ?case .
qed

lemma foldl_remove_result:
  "foldl remove_result m rs = m\<lparr>m_results := filter (\<lambda>r. r \<notin> set rs) (m_results m)\<rparr>"
proof (induction rs arbitrary: m)
  case Nil
  show ?case by simp
next
  case (Cons r rs)
  have "foldl remove_result m (r # rs) = foldl remove_result (remove_result m r) rs" by simp
  also have "\<dots> = (remove_result m r)\<lparr>m_results := filter (\<lambda>x. x \<notin> set rs) (m_results (remove_result m r))\<rparr>"
    by (rule Cons.IH)
  also have "\<dots> = m\<lparr>m_results := filter (\<lambda>x. x \<notin> set (r # rs)) (m_results m)\<rparr>"
    by (simp add: remove_result_def filter_removeAll)
  finally show ?case .
qed

lemma finish_eq:
  "finish pin ctx rs m =
     m\<lparr>m_parameters :=
         filter (\<lambda>p. p \<notin> set (c_parameters_to_remove ctx)) (m_parameters m) @
         c_kv_parameters ctx @ p_model_remaining_params pin @ [p_max_context_len pin],
       m_results := filter (\<lambda>r. r \<notin> set rs) (m_results m),
       m_sinks := []\<rparr>"
  by (simp add: finish_def foldl_remove_parameter foldl_remove_sink foldl_remove_result
      get_sinks_def add_parameters_def)

lemma remove_beam_idx_eq:
  "remove_beam_idx m =
     (case input m ''beam_idx'' of
        None \<Rightarrow> Inr m
      | Some t \<Rightarrow>
          (case dynamic_pointer_cast_Parameter m t of
             None \<Rightarrow> Inl (Returned False, m)
           | Some p \<Rightarrow> Inr (remove_parameter m t)))"
  by (auto simp: remove_beam_idx_def has_parameter_input split: option.splits dest: cast_SomeD(1))

lemma remove_beam_idx_frame:
  assumes "remove_beam_idx m = Inr m'"
  shows "m_results m' = m_results m" and "heap m' = heap m" and "m_sinks m' = m_sinks m"
  using assms
  by (auto simp: remove_beam_idx_def remove_parameter_def split: if_splits option.splits)

lemma remove_beam_idx_stop: "remove_beam_idx m = Inl (out, m') \<Longrightarrow> m' = m"
  by (auto simp: remove_beam_idx_def split: if_splits option.splits)

lemma remove_beam_idx_parameters:
  "remove_beam_idx m = Inr m' \<Longrightarrow> set (m_parameters m') \<subseteq> set (m_parameters m)"
  by (auto simp: remove_beam_idx_eq remove_parameter_def split: option.splits)

lemma remove_attention_mask_frame:
  assumes "remove_attention_mask m = Inr m'"
  shows "m_results m' = m_results m" and "heap m' = heap m" and "m_sinks m' = m_sinks m"
  using assms
  by (auto simp: remove_attention_mask_def remove_parameter_def split: if_splits option.splits)

lemma remove_attention_mask_stop: "remove_attention_mask m = Inl (out, m') \<Longrightarrow> m' = m"
  by (auto simp: remove_attention_mask_def split: if_splits option.splits)

lemma remove_attention_mask_parameters:
  "remove_attention_mask m = Inr m' \<Longrightarrow> set (m_parameters m') \<subseteq> set (m_parameters m)"
  by (auto simp: remove_attention_mask_def remove_parameter_def split: option.splits)

lemma finalize_eq:
  "finalize pin ctx rs m =
     (case remove_beam_idx m of
        Inl stop \<Rightarrow> stop
      | Inr m3 \<Rightarrow>
          (case input m3 ''attention_mask'' of
             None \<Rightarrow> (LookupFailed, m3)
           | Some t \<Rightarrow>
               (case dynamic_pointer_cast_Parameter m3 t of
                  None \<Rightarrow> (Returned False, m3)
                | Some p \<Rightarrow> (Returned True, finish pin ctx rs (remove_parameter m3 t)))))"
  by (auto simp: finalize_def remove_attention_mask_def split: sum.splits option.splits
      dest: cast_SomeD(1))

lemma finalize_frame:
  "m_results (snd (finalize pin ctx [] m)) = m_results m"
  "heap (snd (finalize pin ctx rs m)) = heap m"
proof -
  show "m_results (snd (finalize pin ctx [] m)) = m_results m"
  proof (cases "remove_beam_idx m")
    case (Inl stop)
    then show ?thesis
      by (cases stop) (auto simp: finalize_def dest: remove_beam_idx_stop)
  next
    case b: (Inr m1)
    show ?thesis
    proof (cases "remove_attention_mask m1")
      case (Inl stop)
      with b show ?thesis
        by (cases stop) (auto simp: finalize_def remove_beam_idx_frame dest: remove_attention_mask_stop)
    next
      case (Inr m2)
      with b show ?thesis
        by (simp add: finalize_def finish_eq remove_beam_idx_frame remove_attention_mask_frame)
    qed
  qed
  show "heap (snd (finalize pin ctx rs m)) = heap m"
  proof (cases "remove_beam_idx m")
    case (Inl stop)
    then show ?thesis
      by (cases stop) (auto simp: finalize_def dest: remove_beam_idx_stop)
  next
    case b: (Inr m1)
    show ?thesis
    proof (cases "remove_attention_mask m1")
      case (Inl stop)
      with b show ?thesis
        by (cases stop) (auto simp: finalize_def remove_beam_idx_frame dest: remove_attention_mask_stop)
    next
      case (Inr m2)
      with b show ?thesis
        by (simp add: finalize_def finish_eq remove_beam_idx_frame remove_attention_mask_frame)
    qed
  qed
qed

lemma finalize_True_sinks: "finalize pin ctx rs m = (Returned True, m') \<Longrightarrow> m_sinks m' = []"
  by (auto simp: finalize_def finish_eq remove_beam_idx_def remove_attention_mask_def
      split: sum.splits if_splits option.splits)

lemma filter_empty_names:
  assumes "\<And>q. q \<in> set qs \<Longrightarrow> name \<notin> set (get_names m q)"
  shows "filter (\<lambda>p. name \<in> set (get_names m p)) qs = []"
  using assms by (simp add: filter_empty_conv)

subsection \<open>The whole run\<close>

text \<open>The run as the composition of its three parts.\<close>

lemma run_on_model_stop: "prepare m = Inl stop \<Longrightarrow> run_on_model run_passes m = stop"
  by (simp add: run_on_model_def)

lemma run_on_model_passes:
  "prepare m = Inr (pin, m1) \<Longrightarrow> run_passes pin initial_context m1 = (ctx, m2) \<Longrightarrow>
   run_on_model run_passes m = finalize pin ctx [] m2"
  by (simp add: run_on_model_def)

lemma run_success_parameters:
  assumes "prepare m = Inr (pin, m1)"
    and "run_passes pin initial_context m1 = (ctx, m2)"
    and "run_on_model run_passes m = (Returned True, m')"
  obtains m3 m4 where "remove_beam_idx m2 = Inr m3" and "remove_attention_mask m3 = Inr m4"
    and "m_parameters m' =
           filter (\<lambda>p. p \<notin> set (c_parameters_to_remove ctx)) (m_parameters m4) @
           c_kv_parameters ctx @ p_model_remaining_params pin @ [p_max_context_len pin]"
    and "heap m' = heap m2"
proof -
  from assms have f: "finalize pin ctx [] m2 = (Returned True, m')"
    by (simp add: run_on_model_passes)
  then obtain m3 t where b: "remove_beam_idx m2 = Inr m3"
    and i: "input m3 ''attention_mask'' = Some t"
    and c: "dynamic_pointer_cast_Parameter m3 t = Some t"
    and m': "m' = finish pin ctx [] (remove_parameter m3 t)"
    by (auto simp: finalize_eq remove_beam_idx_eq split: sum.splits option.splits
        dest: cast_SomeD(1))
  define m4 where "m4 = remove_parameter m3 t"
  from i c have a: "remove_attention_mask m3 = Inr m4"
    by (simp add: remove_attention_mask_def m4_def)
  from m' have "m' = finish pin ctx [] m4" by (simp add: m4_def)
  then have 1: "m_parameters m' =
      filter (\<lambda>p. p \<notin> set (c_parameters_to_remove ctx)) (m_parameters m4) @
      c_kv_parameters ctx @ p_model_remaining_params pin @ [p_max_context_len pin]"
    by (simp add: finish_eq)
  from f have "heap m' = heap m2"
    using finalize_frame(2)[of pin ctx "[]" m2] by simp
  with b a 1 show ?thesis by (rule that)
qed

lemma input_ids_failure_outcome:
  "input m ''input_ids'' = None \<Longrightarrow> fst (run_on_model run_passes m) = LookupFailed"
  "input m ''input_ids'' = Some a \<Longrightarrow> dynamic_pointer_cast_Parameter m a = None \<Longrightarrow>
     fst (run_on_model run_passes m) = NullDereference"
  by (simp_all add: prepare_input_ids_failure run_on_model_stop)

lemma position_ids_failure_no_return:
  assumes t: "input m ''position_ids'' = Some t"
    and ct: "dynamic_pointer_cast_Parameter m t = None"
  shows "fst (run_on_model run_passes m) \<noteq> Returned b"
proof (cases "input m ''input_ids''")
  case None
  then show ?thesis by (simp add: input_ids_failure_outcome(1))
next
  case (Some a)
  show ?thesis
  proof (cases "dynamic_pointer_cast_Parameter m a")
    case None
    with Some show ?thesis by (simp add: input_ids_failure_outcome(2))
  next
    case c: (Some p)
    with cast_SomeD(1)[OF c] have "dynamic_pointer_cast_Parameter m a = Some a" by simp
    from prepare_position_ids_failure[OF Some this t ct] show ?thesis
      by (auto simp: run_on_model_stop)
  qed
qed

subsection \<open>Lines 69-79 in full\<close>

text \<open>
  What lines 69-79 do to the model in each branch that builds the Unsqueeze, and that the
  Parameter list still holds Parameters when the run gets to line 69.
\<close>

lemma adapt_position_ids_effect:
  "(\<not> has_parameter m ''position_ids'' \<longrightarrow>
      (\<exists>m'. adapt_position_ids m = Inr (length (heap m) + 2, m') \<and>
            m_parameters m' = m_parameters m @ [length (heap m)] \<and>
            get_node m' (length (heap m)) = Some (Parameter_node i64 [-1] ''position_ids'') \<and>
            get_node m' (length (heap m) + 1) = Some (op_node (Constant i32 [] [1]) []) \<and>
            get_node m' (length (heap m) + 2) =
              Some (rewire (length (heap m)) (length (heap m) + 2)
                     (op_node Unsqueeze [length (heap m), length (heap m) + 1])) \<and>
            (\<forall>i nd. get_node m i = Some nd \<longrightarrow>
               get_node m' i = Some (rewire (length (heap m)) (length (heap m) + 2) nd)) \<and>
            (\<forall>i nd. get_node m' i = Some nd \<longrightarrow> length (heap m) \<notin> set (args nd)))) \<and>
   (\<forall>t nd et ps.
      has_parameter m ''position_ids'' \<and> input m ''position_ids'' = Some t \<and>
      get_node m t = Some nd \<and> op nd = Parameter et ps \<longrightarrow>
      (\<exists>m'. adapt_position_ids m = Inr (length (heap m) + 1, m') \<and>
            m_parameters m' = m_parameters m \<and>
            length (heap m') = length (heap m) + 2 \<and>
            get_node m' t = Some (rewire t (length (heap m) + 1) (nd\<lparr>op := Parameter et [-1]\<rparr>)) \<and>
            get_node m' (length (heap m)) = Some (op_node (Constant i32 [] [1]) []) \<and>
            get_node m' (length (heap m) + 1) =
              Some (rewire t (length (heap m) + 1) (op_node Unsqueeze [t, length (heap m)])) \<and>
            (\<forall>i nd'. i \<noteq> t \<and> get_node m i = Some nd' \<longrightarrow>
               get_node m' i = Some (rewire t (length (heap m) + 1) nd')) \<and>
            (\<forall>i nd'. get_node m' i = Some nd' \<longrightarrow> t \<notin> set (args nd'))))"
proof (intro conjI impI allI)
  assume h: "\<not> has_parameter m ''position_ids''"
  let ?n = "length (heap m)"
  let ?M = "m\<lparr>heap := heap m @ [Parameter_node i64 [-1] ''position_ids''],
              m_parameters := m_parameters m @ [?n]\<rparr>"
  let ?m' = "position_ids_adapted ?n ?M"
  from h have a: "adapt_position_ids m = Inr (?n + 2, ?m')"
    by (simp add: adapt_position_ids_eq)
  have l: "length (heap ?M) = ?n + 1" by simp
  have 1: "m_parameters ?m' = m_parameters m @ [?n]" by simp
  have gM: "get_node ?M i = (if i < ?n then get_node m i else if i = ?n
      then Some (Parameter_node i64 [-1] ''position_ids'') else None)" for i
    by (auto simp: get_node_def nth_append)
  have 2: "get_node ?m' ?n = Some (Parameter_node i64 [-1] ''position_ids'')"
  proof -
    have "get_node ?m' ?n = map_option (rewire ?n (length (heap ?M) + 1)) (get_node ?M ?n)"
      by (rule get_node_position_ids_adapted_old) simp
    also have "\<dots> = Some (rewire ?n (length (heap ?M) + 1) (Parameter_node i64 [-1] ''position_ids''))"
      by (simp only: gM) simp
    also have "\<dots> = Some (Parameter_node i64 [-1] ''position_ids'')"
      by (simp add: rewire_def Parameter_node_def)
    finally show ?thesis .
  qed
  have 3: "get_node ?m' (?n + 1) = Some (op_node (Constant i32 [] [1]) [])"
    using get_node_position_ids_adapted_new(1)[of ?n ?M] by simp
  have 4: "get_node ?m' (?n + 2) = Some (rewire ?n (?n + 2) (op_node Unsqueeze [?n, ?n + 1]))"
    using get_node_position_ids_adapted_new(2)[of ?n ?M] by (simp add: add.commute)
  have 5: "get_node ?m' i = Some (rewire ?n (?n + 2) nd)" if "get_node m i = Some nd" for i nd
  proof -
    from that have "i < ?n" by (simp add: get_node_SomeD)
    with that show ?thesis
      using get_node_position_ids_adapted_old[of i ?M ?n] by (simp add: gM add.commute)
  qed
  have 6: "?n \<notin> set (args nd)" if "get_node ?m' i = Some nd" for i nd
    by (rule position_ids_adapted_no_consumer[OF _ that]) simp
  from a 1 2 3 4 5 6
  show "\<exists>m'. adapt_position_ids m = Inr (?n + 2, m') \<and>
            m_parameters m' = m_parameters m @ [?n] \<and>
            get_node m' ?n = Some (Parameter_node i64 [-1] ''position_ids'') \<and>
            get_node m' (?n + 1) = Some (op_node (Constant i32 [] [1]) []) \<and>
            get_node m' (?n + 2) = Some (rewire ?n (?n + 2) (op_node Unsqueeze [?n, ?n + 1])) \<and>
            (\<forall>i nd. get_node m i = Some nd \<longrightarrow> get_node m' i = Some (rewire ?n (?n + 2) nd)) \<and>
            (\<forall>i nd. get_node m' i = Some nd \<longrightarrow> ?n \<notin> set (args nd))"
    by blast
next
  fix t nd et ps
  assume h: "has_parameter m ''position_ids'' \<and> input m ''position_ids'' = Some t \<and>
      get_node m t = Some nd \<and> op nd = Parameter et ps"
  let ?n = "length (heap m)"
  let ?M = "set_partial_shape t [-1] m"
  let ?m' = "position_ids_adapted t ?M"
  from h have tl: "t < ?n" by (simp add: get_node_SomeD)
  from h have c: "dynamic_pointer_cast_Parameter m t = Some t"
    by (simp add: dynamic_pointer_cast_Parameter_def)
  with h have a: "adapt_position_ids m = Inr (?n + 1, ?m')"
    by (simp add: adapt_position_ids_eq)
  have 1: "m_parameters ?m' = m_parameters m" "length (heap ?m') = ?n + 2" by simp_all
  from h tl have 2: "get_node ?m' t = Some (rewire t (?n + 1) (nd\<lparr>op := Parameter et [-1]\<rparr>))"
    using get_node_position_ids_adapted_old[of t ?M t]
    by (simp add: get_node_set_partial_shape)
  have 3: "get_node ?m' ?n = Some (op_node (Constant i32 [] [1]) [])"
    using get_node_position_ids_adapted_new(1)[of t ?M] by simp
  have 4: "get_node ?m' (?n + 1) = Some (rewire t (?n + 1) (op_node Unsqueeze [t, ?n]))"
    using get_node_position_ids_adapted_new(2)[of t ?M] by simp
  have 5: "get_node ?m' i = Some (rewire t (?n + 1) nd')"
    if "i \<noteq> t \<and> get_node m i = Some nd'" for i nd'
  proof -
    from that have "i < ?n" by (simp add: get_node_SomeD)
    with that show ?thesis
      using get_node_position_ids_adapted_old[of i ?M t] by (simp add: get_node_set_partial_shape)
  qed
  have 6: "t \<notin> set (args nd')" if "get_node ?m' i = Some nd'" for i nd'
    by (rule position_ids_adapted_no_consumer[OF _ that]) (use tl in simp)
  from a 1 2 3 4 5 6
  show "\<exists>m'. adapt_position_ids m = Inr (?n + 1, m') \<and>
            m_parameters m' = m_parameters m \<and>
            length (heap m') = ?n + 2 \<and>
            get_node m' t = Some (rewire t (?n + 1) (nd\<lparr>op := Parameter et [-1]\<rparr>)) \<and>
            get_node m' ?n = Some (op_node (Constant i32 [] [1]) []) \<and>
            get_node m' (?n + 1) = Some (rewire t (?n + 1) (op_node Unsqueeze [t, ?n])) \<and>
            (\<forall>i nd'. i \<noteq> t \<and> get_node m i = Some nd' \<longrightarrow>
               get_node m' i = Some (rewire t (?n + 1) nd')) \<and>
            (\<forall>i nd'. get_node m' i = Some nd' \<longrightarrow> t \<notin> set (args nd'))"
    by blast
qed

lemma inputs_are_Parameters_line_69:
  assumes w: "inputs_are_Parameters m"
    and a: "adapt_input_ids (snd (scheduling_parameters m)) = Inr (u, m2)"
  shows "inputs_are_Parameters (snd (make_prev_max_seq_len (length (heap m)) u m2))"
proof -
  let ?M0 = "m\<lparr>heap := heap m @ scheduling_nodes\<rparr>"
  from a obtain t where m2: "m2 = input_ids_adapted t ?M0"
    by (auto simp: scheduling_parameters_eq adapt_input_ids_eq split: option.splits)
  let ?M3 = "snd (make_prev_max_seq_len (length (heap m)) u m2)"
  have M3: "?M3 = m2\<lparr>heap := heap m2 @
         [op_node ShapeOf [u],
          op_node (Constant i64 [] [1]) [],
          op_node (Constant i64 [] [0]) [],
          op_node Gather [length (heap m2), length (heap m2) + 1, length (heap m2) + 2],
          op_node (Convert i32) [length (heap m2) + 3],
          op_node Subtract [length (heap m), length (heap m2) + 4]]\<rparr>"
    by (simp add: make_prev_max_seq_len_eq)
  have "dynamic_pointer_cast_Parameter ?M3 p = Some p" if p: "p \<in> set (m_parameters m)" for p
  proof -
    from w p have c: "dynamic_pointer_cast_Parameter m p = Some p"
      by (simp add: inputs_are_Parameters_def list_all_iff)
    from cast_SomeD(2)[OF c] have l: "p < length (heap m)" .
    from c l have c0: "dynamic_pointer_cast_Parameter ?M0 p = Some p"
      by (simp add: cast_heap_append)
    from c0 l have c2: "dynamic_pointer_cast_Parameter m2 p = Some p"
      by (simp add: m2 cast_input_ids_adapted)
    from l have "p < length (heap m2)" by (simp add: m2)
    with c2 show ?thesis
      unfolding M3 by (subst cast_heap_append) simp_all
  qed
  moreover have "m_parameters ?M3 = m_parameters m"
    by (simp add: make_prev_max_seq_len_eq m2)
  ultimately show ?thesis
    by (simp add: inputs_are_Parameters_def list_all_iff)
qed

lemmas eval_defs =
  run_on_model_def prepare_def scheduling_parameters_def named_Parameter_def new_Parameter_def
  make_shared_def setName_def update_node_def Constant_create_def new_op_def op_node_def
  adapt_input_ids_def input_def inputs_def get_names_def get_node_def
  dynamic_pointer_cast_Parameter_def set_partial_shape_def replace_node_def rewire_def
  make_prev_max_seq_len_def adapt_position_ids_def has_parameter_def add_parameters_def
  initial_context_def finalize_def remove_beam_idx_def remove_attention_mask_def
  remove_parameter_def finish_def get_sinks_def remove_sink_def remove_result_def
  Parameter_node_def no_passes_def example_passes_def

lemma example_passes_results: "m_results (snd (example_passes pin ctx m)) = m_results m"
  by (simp add: example_passes_def named_Parameter_eq)

lemma example_run_succeeds: "fst (run_on_model example_passes example_model) = Returned True"
  by (simp add: eval_defs example_model_def)

section \<open>The claims\<close>

text \<open>
  C1. The run has reached line 108 with the model \<open>m3\<close> (the sub-passes have run and the
  \<open>beam_idx\<close> step has not failed), and the name \<open>attention_mask\<close> resolves to the node \<open>t\<close>.
  If \<open>t\<close> is not a Parameter, \<open>run_on_model\<close> returns false and leaves the model \<open>m3\<close> as it
  is: lines 115-133, and with them the three appends to the Parameter list, are not run.
  If \<open>t\<close> is a Parameter, it is removed from the Parameter list and the run returns true.
\<close>

theorem C1_attention_mask:
  assumes "prepare m = Inr (pin, m1)"
    and "run_passes pin initial_context m1 = (ctx, m2)"
    and "remove_beam_idx m2 = Inr m3"
    and "input m3 ''attention_mask'' = Some t"
  shows "(dynamic_pointer_cast_Parameter m3 t = None \<longrightarrow>
            run_on_model run_passes m = (Returned False, m3)) \<and>
         (dynamic_pointer_cast_Parameter m3 t = Some t \<longrightarrow>
            run_on_model run_passes m =
              (Returned True, finish pin ctx [] (remove_parameter m3 t)) \<and>
            t \<notin> set (m_parameters (remove_parameter m3 t)) \<and>
            m_parameters (finish pin ctx [] (remove_parameter m3 t)) =
              filter (\<lambda>p. p \<notin> set (c_parameters_to_remove ctx)) (removeAll t (m_parameters m3)) @
              c_kv_parameters ctx @ p_model_remaining_params pin @ [p_max_context_len pin])"
  using assms
  by (simp add: run_on_model_passes finalize_eq finish_eq remove_parameter_def)

theorem C1_attention_mask_witness:
  "fst (run_on_model no_passes computed_mask_model) = Returned False \<and>
   m_parameters (snd (run_on_model no_passes computed_mask_model)) = [0, 1, 16] \<and>
   fst (run_on_model example_passes example_model) = Returned True \<and>
   m_parameters (snd (run_on_model example_passes example_model)) =
     [0, 23, 26, 27, 28, 29, 10, 11, 12, 13, 9]"
proof -
  have "\<exists>pin m1 ctx m2 m3.
          prepare computed_mask_model = Inr (pin, m1) \<and>
          no_passes pin initial_context m1 = (ctx, m2) \<and>
          remove_beam_idx m2 = Inr m3 \<and>
          input m3 ''attention_mask'' = Some 1 \<and>
          dynamic_pointer_cast_Parameter m3 1 = None \<and>
          m_parameters m3 = [0, 1, 16]"
    by (simp add: eval_defs computed_mask_model_def)
  then obtain pin m1 ctx m2 m3 where
    p: "prepare computed_mask_model = Inr (pin, m1)" and
    r: "no_passes pin initial_context m1 = (ctx, m2)" and
    b: "remove_beam_idx m2 = Inr m3" and
    i: "input m3 ''attention_mask'' = Some 1" and
    c: "dynamic_pointer_cast_Parameter m3 1 = None" and
    l: "m_parameters m3 = [0, 1, 16]"
    by blast
  from C1_attention_mask[where run_passes = no_passes, OF p r b i] c
  have "run_on_model no_passes computed_mask_model = (Returned False, m3)" by blast
  with l have 1: "fst (run_on_model no_passes computed_mask_model) = Returned False"
    "m_parameters (snd (run_on_model no_passes computed_mask_model)) = [0, 1, 16]"
    by simp_all
  have "\<exists>pin m1 ctx m2 m3.
          prepare example_model = Inr (pin, m1) \<and>
          example_passes pin initial_context m1 = (ctx, m2) \<and>
          remove_beam_idx m2 = Inr m3 \<and>
          input m3 ''attention_mask'' = Some 1 \<and>
          dynamic_pointer_cast_Parameter m3 1 = Some 1 \<and>
          m_parameters (finish pin ctx [] (remove_parameter m3 1)) =
            [0, 23, 26, 27, 28, 29, 10, 11, 12, 13, 9]"
    by (simp add: eval_defs example_model_def)
  then obtain pin m1 ctx m2 m3 where
    p: "prepare example_model = Inr (pin, m1)" and
    r: "example_passes pin initial_context m1 = (ctx, m2)" and
    b: "remove_beam_idx m2 = Inr m3" and
    i: "input m3 ''attention_mask'' = Some 1" and
    c: "dynamic_pointer_cast_Parameter m3 1 = Some 1" and
    l: "m_parameters (finish pin ctx [] (remove_parameter m3 1)) =
          [0, 23, 26, 27, 28, 29, 10, 11, 12, 13, 9]"
    by blast
  from C1_attention_mask[where run_passes = example_passes, OF p r b i] c
  have "run_on_model example_passes example_model =
          (Returned True, finish pin ctx [] (remove_parameter m3 1))"
    by blast
  with l have 2: "fst (run_on_model example_passes example_model) = Returned True"
    "m_parameters (snd (run_on_model example_passes example_model)) =
       [0, 23, 26, 27, 28, 29, 10, 11, 12, 13, 9]"
    by simp_all
  from 1 2 show ?thesis by blast
qed

text \<open>
  C2. For every run that returns success, zero Sinks remain in the graph: the finalizer
  removes every remaining Sink, whatever the sub-passes did and whatever they recorded in
  \<open>assignes_to_remove\<close>.
\<close>

theorem C2_no_sinks_after_success:
  assumes "run_on_model run_passes m = (Returned True, m')"
  shows "m_sinks m' = []"
proof (cases "prepare m")
  case (Inl stop)
  with assms have "prepare m = Inl (Returned True, m')" by (simp add: run_on_model_stop)
  from prepare_stop(1)[OF this] show ?thesis by simp
next
  case (Inr r)
  obtain pin m1 where r: "r = (pin, m1)" by (cases r)
  obtain ctx m2 where p: "run_passes pin initial_context m1 = (ctx, m2)"
    by (cases "run_passes pin initial_context m1")
  from Inr r p assms have "finalize pin ctx [] m2 = (Returned True, m')"
    by (simp add: run_on_model_passes)
  then show ?thesis by (rule finalize_True_sinks)
qed

theorem C2_no_sinks_after_success_witness:
  "m_sinks example_model = [4, 5, 6, 7] \<and>
   run_on_model example_passes example_model =
     (Returned True, snd (run_on_model example_passes example_model)) \<and>
   m_sinks (snd (run_on_model example_passes example_model)) = []"
proof -
  have h: "run_on_model example_passes example_model =
             (Returned True, snd (run_on_model example_passes example_model))"
    using example_run_succeeds by (simp add: prod_eq_iff)
  have "m_sinks example_model = [4, 5, 6, 7]" by (simp add: example_model_def)
  with h C2_no_sinks_after_success[OF h] show ?thesis by blast
qed

text \<open>
  C3. On every successful run the Parameter list of the result is the list that the removals
  leave, followed by the KV Parameters in the order in which the sub-passes left them in
  \<open>kv_parameters\<close>, then the four Parameters of \<open>model_remaining_params\<close>, which were created
  with the names \<open>context_lens\<close>, \<open>subsequence_begins\<close>, \<open>block_indices\<close> and
  \<open>block_indices_begins\<close> in this order, then \<open>max_context_len\<close> last.
\<close>

theorem C3_append_order:
  assumes "prepare m = Inr (pin, m1)"
    and "run_passes pin initial_context m1 = (ctx, m2)"
    and "run_on_model run_passes m = (Returned True, m')"
  shows "(\<exists>m3 m4. remove_beam_idx m2 = Inr m3 \<and> remove_attention_mask m3 = Inr m4 \<and>
            m_parameters m' =
              filter (\<lambda>p. p \<notin> set (c_parameters_to_remove ctx)) (m_parameters m4) @
              c_kv_parameters ctx @ p_model_remaining_params pin @ [p_max_context_len pin]) \<and>
         map (get_names m1) (p_model_remaining_params pin) =
           [[''context_lens''], [''subsequence_begins''], [''block_indices''],
            [''block_indices_begins'']] \<and>
         get_names m1 (p_max_context_len pin) = [''max_context_len'']"
proof -
  from assms obtain m3 m4 where b: "remove_beam_idx m2 = Inr m3"
    and a: "remove_attention_mask m3 = Inr m4"
    and 1: "m_parameters m' =
      filter (\<lambda>p. p \<notin> set (c_parameters_to_remove ctx)) (m_parameters m4) @
      c_kv_parameters ctx @ p_model_remaining_params pin @ [p_max_context_len pin]"
    by (rule run_success_parameters)
  have n: "get_names m1 (length (heap m) + k) = names (scheduling_nodes ! k)" if "k < 5" for k
    using prepare_scheduling_nodes[OF assms(1) that] by (rule get_names_get_node)
  from n[of 0] n[of 1] n[of 2] n[of 3] n[of 4]
  have 2: "map (get_names m1) (p_model_remaining_params pin) =
           [[''context_lens''], [''subsequence_begins''], [''block_indices''],
            [''block_indices_begins'']]"
    and 3: "get_names m1 (p_max_context_len pin) = [''max_context_len'']"
    by (simp_all add: prepare_pass_inputs[OF assms(1)] scheduling_nodes_def Parameter_node_def)
  from b a 1 2 3 show ?thesis by blast
qed

theorem C3_append_order_witness:
  "fst (run_on_model example_passes example_model) = Returned True \<and>
   m_parameters (snd (run_on_model example_passes example_model)) =
     [0, 23] @ [26, 27, 28, 29] @ [10, 11, 12, 13] @ [9]"
proof -
  have "\<exists>pin m1 ctx m2 m' m3 m4.
          prepare example_model = Inr (pin, m1) \<and>
          example_passes pin initial_context m1 = (ctx, m2) \<and>
          run_on_model example_passes example_model = (Returned True, m') \<and>
          remove_beam_idx m2 = Inr m3 \<and>
          remove_attention_mask m3 = Inr m4 \<and>
          filter (\<lambda>p. p \<notin> set (c_parameters_to_remove ctx)) (m_parameters m4) = [0, 23] \<and>
          c_kv_parameters ctx = [26, 27, 28, 29] \<and>
          p_model_remaining_params pin = [10, 11, 12, 13] \<and>
          p_max_context_len pin = 9"
    by (simp add: eval_defs example_model_def)
  then obtain pin m1 ctx m2 m' m3 m4 where
    p: "prepare example_model = Inr (pin, m1)" and
    r: "example_passes pin initial_context m1 = (ctx, m2)" and
    s: "run_on_model example_passes example_model = (Returned True, m')" and
    b: "remove_beam_idx m2 = Inr m3" and
    a: "remove_attention_mask m3 = Inr m4" and
    l: "filter (\<lambda>p. p \<notin> set (c_parameters_to_remove ctx)) (m_parameters m4) = [0, 23]"
       "c_kv_parameters ctx = [26, 27, 28, 29]"
       "p_model_remaining_params pin = [10, 11, 12, 13]"
       "p_max_context_len pin = 9"
    by blast
  from C3_append_order[where run_passes = example_passes, OF p r s] b a
  have "m_parameters m' =
          filter (\<lambda>p. p \<notin> set (c_parameters_to_remove ctx)) (m_parameters m4) @
          c_kv_parameters ctx @ p_model_remaining_params pin @ [p_max_context_len pin]"
    by auto
  with l s show ?thesis by simp
qed

text \<open>
  C4. In the model that is handed to the sub-passes, the node registered with
  \<open>PrevSequenceLengthPattern\<close> as \<open>prev_max_seq_len\<close> is the subtraction of two values:
  \<open>max_context_len\<close>, and the conversion to 32-bit integers of the entry with index 1 of the
  shape of the unsqueezed \<open>input_ids\<close> node, that is, of the size of its axis 1, read by a
  Gather along axis 0 of the ShapeOf. The later rewiring of the consumers of
  \<open>position_ids\<close> leaves these nodes as they were built.
\<close>

theorem C4_prev_max_seq_len:
  assumes "prepare m = Inr (pin, m1)"
  shows "\<exists>unsqueezed_input_ids m2 shape_of indices axis cur_seq_len converted.
      adapt_input_ids (snd (scheduling_parameters m)) = Inr (unsqueezed_input_ids, m2) \<and>
      map_option op (get_node m1 unsqueezed_input_ids) = Some Unsqueeze \<and>
      get_node m1 shape_of = Some (op_node ShapeOf [unsqueezed_input_ids]) \<and>
      get_node m1 indices = Some (op_node (Constant i64 [] [1]) []) \<and>
      get_node m1 axis = Some (op_node (Constant i64 [] [0]) []) \<and>
      get_node m1 cur_seq_len = Some (op_node Gather [shape_of, indices, axis]) \<and>
      get_node m1 converted = Some (op_node (Convert i32) [cur_seq_len]) \<and>
      get_node m1 (p_prev_max_seq_len pin) =
        Some (op_node Subtract [p_max_context_len pin, converted]) \<and>
      get_node m1 (p_max_context_len pin) = Some (Parameter_node i32 [] ''max_context_len'')"
proof -
  let ?n = "length (heap m)"
  note c = prepare_chain[OF assms]
  from c(1) obtain r where r: "adapt_input_ids (snd (scheduling_parameters m)) = Inr r"
    by (cases "adapt_input_ids (snd (scheduling_parameters m))") auto
  with c(2) have a: "adapt_input_ids (snd (scheduling_parameters m)) = Inr (?n + 7, snd r)"
    by (cases r) simp
  from c(3) have u: "map_option op (get_node m1 (?n + 7)) = Some Unsqueeze"
    by (simp add: op_node_def)
  from prepare_scheduling_nodes[OF assms, of 0]
  have mcl: "get_node m1 ?n = Some (Parameter_node i32 [] ''max_context_len'')"
    by (simp add: scheduling_nodes_def)
  have pm: "p_max_context_len pin = ?n" by (rule prepare_pass_inputs(1)[OF assms])
  from a u c(4-10) mcl pm show ?thesis by (simp only:) blast
qed

theorem C4_prev_max_seq_len_witness:
  "\<exists>pin m1 unsqueezed_input_ids m2 shape_of indices axis cur_seq_len converted.
      prepare example_model = Inr (pin, m1) \<and>
      p_max_context_len pin = 9 \<and> p_prev_max_seq_len pin = 22 \<and>
      adapt_input_ids (snd (scheduling_parameters example_model)) = Inr (unsqueezed_input_ids, m2) \<and>
      map_option op (get_node m1 unsqueezed_input_ids) = Some Unsqueeze \<and>
      get_node m1 shape_of = Some (op_node ShapeOf [unsqueezed_input_ids]) \<and>
      get_node m1 indices = Some (op_node (Constant i64 [] [1]) []) \<and>
      get_node m1 axis = Some (op_node (Constant i64 [] [0]) []) \<and>
      get_node m1 cur_seq_len = Some (op_node Gather [shape_of, indices, axis]) \<and>
      get_node m1 converted = Some (op_node (Convert i32) [cur_seq_len]) \<and>
      get_node m1 22 = Some (op_node Subtract [9, converted]) \<and>
      get_node m1 9 = Some (Parameter_node i32 [] ''max_context_len'')"
proof -
  have "\<exists>pin m1. prepare example_model = Inr (pin, m1) \<and>
          p_max_context_len pin = 9 \<and> p_prev_max_seq_len pin = 22"
    by (simp add: eval_defs example_model_def)
  then obtain pin m1 where p: "prepare example_model = Inr (pin, m1)"
    and n: "p_max_context_len pin = 9" "p_prev_max_seq_len pin = 22"
    by blast
  from C4_prev_max_seq_len[OF p] n p show ?thesis by (simp only:) blast
qed

text \<open>
  C5. When the lookup of \<open>input_ids\<close> does not give a Parameter, the run does not return
  false. For a model in which no input carries the name, the lookup of line 41 fails; for a
  model in which the name is bound to a computed node, the cast of line 41 gives the null
  handle, which line 42 dereferences. Lines 99-113 test the handles of \<open>beam_idx\<close> and
  \<open>attention_mask\<close> and return false; lines 40-42 have no such test.
\<close>

theorem C5_input_ids_failure_is_not_false:
  "input no_input_ids_model ''input_ids'' = None \<and>
   fst (run_on_model no_passes no_input_ids_model) = LookupFailed \<and>
   input computed_input_ids_model ''input_ids'' = Some 2 \<and>
   dynamic_pointer_cast_Parameter computed_input_ids_model 2 = None \<and>
   fst (run_on_model no_passes computed_input_ids_model) = NullDereference"
proof -
  have 1: "input no_input_ids_model ''input_ids'' = None"
    by (simp add: eval_defs no_input_ids_model_def)
  have 2: "input computed_input_ids_model ''input_ids'' = Some 2"
    and 3: "dynamic_pointer_cast_Parameter computed_input_ids_model 2 = None"
    by (simp_all add: eval_defs computed_input_ids_model_def)
  from 1 2 3 input_ids_failure_outcome(1)[OF 1] input_ids_failure_outcome(2)[OF 2 3]
  show ?thesis by blast
qed

text \<open>
  C6. The model is at line 69 and its Parameter list holds Parameters. If no input carries
  the name \<open>position_ids\<close>, a new Parameter with element type \<open>i64\<close>, shape \<open>[-1]\<close> and that
  name is created and appended to the model's Parameter list. If an input carries the name,
  its shape becomes \<open>[-1]\<close>, its element type stays, and no Parameter is created: the
  Parameter list is unchanged and the only new nodes are the axis constant and the
  Unsqueeze. In both cases an Unsqueeze node is built on the Parameter and the constant 1,
  and every node that has the Parameter among its arguments, the new Unsqueeze included, is
  rewired to the Unsqueeze, so that no node consumes the Parameter afterwards. A Parameter
  list that holds Parameters when the run starts still does at line 69
  (\<open>inputs_are_Parameters_line_69\<close>).
\<close>

theorem C6_position_ids:
  assumes "inputs_are_Parameters m"
  shows
  "(\<not> has_parameter m ''position_ids'' \<longrightarrow>
      (\<exists>m'. adapt_position_ids m = Inr (length (heap m) + 2, m') \<and>
            m_parameters m' = m_parameters m @ [length (heap m)] \<and>
            get_node m' (length (heap m)) = Some (Parameter_node i64 [-1] ''position_ids'') \<and>
            get_node m' (length (heap m) + 1) = Some (op_node (Constant i32 [] [1]) []) \<and>
            get_node m' (length (heap m) + 2) =
              Some (rewire (length (heap m)) (length (heap m) + 2)
                     (op_node Unsqueeze [length (heap m), length (heap m) + 1])) \<and>
            (\<forall>i nd. get_node m i = Some nd \<longrightarrow>
               get_node m' i = Some (rewire (length (heap m)) (length (heap m) + 2) nd)) \<and>
            (\<forall>i nd. get_node m' i = Some nd \<longrightarrow> length (heap m) \<notin> set (args nd)))) \<and>
   (has_parameter m ''position_ids'' \<longrightarrow>
      (\<exists>t nd et ps m'.
            input m ''position_ids'' = Some t \<and> get_node m t = Some nd \<and>
            op nd = Parameter et ps \<and>
            adapt_position_ids m = Inr (length (heap m) + 1, m') \<and>
            m_parameters m' = m_parameters m \<and>
            length (heap m') = length (heap m) + 2 \<and>
            get_node m' t = Some (rewire t (length (heap m) + 1) (nd\<lparr>op := Parameter et [-1]\<rparr>)) \<and>
            get_node m' (length (heap m)) = Some (op_node (Constant i32 [] [1]) []) \<and>
            get_node m' (length (heap m) + 1) =
              Some (rewire t (length (heap m) + 1) (op_node Unsqueeze [t, length (heap m)])) \<and>
            (\<forall>i nd'. i \<noteq> t \<and> get_node m i = Some nd' \<longrightarrow>
               get_node m' i = Some (rewire t (length (heap m) + 1) nd')) \<and>
            (\<forall>i nd'. get_node m' i = Some nd' \<longrightarrow> t \<notin> set (args nd'))))"
proof (intro conjI impI)
  assume "\<not> has_parameter m ''position_ids''"
  with adapt_position_ids_effect[of m, THEN conjunct1]
  show "\<exists>m'. adapt_position_ids m = Inr (length (heap m) + 2, m') \<and>
            m_parameters m' = m_parameters m @ [length (heap m)] \<and>
            get_node m' (length (heap m)) = Some (Parameter_node i64 [-1] ''position_ids'') \<and>
            get_node m' (length (heap m) + 1) = Some (op_node (Constant i32 [] [1]) []) \<and>
            get_node m' (length (heap m) + 2) =
              Some (rewire (length (heap m)) (length (heap m) + 2)
                     (op_node Unsqueeze [length (heap m), length (heap m) + 1])) \<and>
            (\<forall>i nd. get_node m i = Some nd \<longrightarrow>
               get_node m' i = Some (rewire (length (heap m)) (length (heap m) + 2) nd)) \<and>
            (\<forall>i nd. get_node m' i = Some nd \<longrightarrow> length (heap m) \<notin> set (args nd))"
    by (rule mp)
next
  assume h: "has_parameter m ''position_ids''"
  then obtain t where t: "input m ''position_ids'' = Some t"
    by (auto simp: has_parameter_input)
  from input_SomeD(1)[OF t] assms have c: "dynamic_pointer_cast_Parameter m t = Some t"
    by (simp add: inputs_are_Parameters_def list_all_iff)
  from cast_SomeD(2)[OF c] have g: "get_node m t = Some (heap m ! t)"
    by (simp add: get_node_def)
  from cast_SomeD(3)[OF c] obtain et ps where o: "op (heap m ! t) = Parameter et ps"
    by blast
  from adapt_position_ids_effect[of m, THEN conjunct2, rule_format,
      OF conjI[OF h conjI[OF t conjI[OF g o]]]]
  obtain m' where e:
    "adapt_position_ids m = Inr (length (heap m) + 1, m') \<and>
     m_parameters m' = m_parameters m \<and>
     length (heap m') = length (heap m) + 2 \<and>
     get_node m' t =
       Some (rewire t (length (heap m) + 1) ((heap m ! t)\<lparr>op := Parameter et [-1]\<rparr>)) \<and>
     get_node m' (length (heap m)) = Some (op_node (Constant i32 [] [1]) []) \<and>
     get_node m' (length (heap m) + 1) =
       Some (rewire t (length (heap m) + 1) (op_node Unsqueeze [t, length (heap m)])) \<and>
     (\<forall>i nd'. i \<noteq> t \<and> get_node m i = Some nd' \<longrightarrow>
        get_node m' i = Some (rewire t (length (heap m) + 1) nd')) \<and>
     (\<forall>i nd'. get_node m' i = Some nd' \<longrightarrow> t \<notin> set (args nd'))"
    by (rule exE)
  show "\<exists>t nd et ps m'.
            input m ''position_ids'' = Some t \<and> get_node m t = Some nd \<and>
            op nd = Parameter et ps \<and>
            adapt_position_ids m = Inr (length (heap m) + 1, m') \<and>
            m_parameters m' = m_parameters m \<and>
            length (heap m') = length (heap m) + 2 \<and>
            get_node m' t = Some (rewire t (length (heap m) + 1) (nd\<lparr>op := Parameter et [-1]\<rparr>)) \<and>
            get_node m' (length (heap m)) = Some (op_node (Constant i32 [] [1]) []) \<and>
            get_node m' (length (heap m) + 1) =
              Some (rewire t (length (heap m) + 1) (op_node Unsqueeze [t, length (heap m)])) \<and>
            (\<forall>i nd'. i \<noteq> t \<and> get_node m i = Some nd' \<longrightarrow>
               get_node m' i = Some (rewire t (length (heap m) + 1) nd')) \<and>
            (\<forall>i nd'. get_node m' i = Some nd' \<longrightarrow> t \<notin> set (args nd'))"
    by (intro exI[of _ t] exI[of _ "heap m ! t"] exI[of _ et] exI[of _ ps] exI[of _ m'])
       (use t g o e in simp)
qed

theorem C6_position_ids_witness:
  "inputs_are_Parameters plain_model \<and>
   \<not> has_parameter plain_model ''position_ids'' \<and>
   (\<exists>m'. adapt_position_ids plain_model = Inr (5, m') \<and>
         m_parameters m' = [0, 1, 3] \<and>
         get_node m' 3 = Some (Parameter_node i64 [-1] ''position_ids'') \<and>
         get_node m' 5 = Some (op_node Unsqueeze [5, 4])) \<and>
   inputs_are_Parameters position_model \<and>
   has_parameter position_model ''position_ids'' \<and>
   (\<exists>m'. adapt_position_ids position_model = Inr (5, m') \<and>
         m_parameters m' = [0, 1, 2] \<and>
         get_node m' 2 = Some (Parameter_node i64 [-1] ''position_ids'') \<and>
         get_node m' 3 = Some (op_node (Other ''Gather'') [5]))"
proof -
  have w1: "inputs_are_Parameters plain_model"
    by (simp add: inputs_are_Parameters_def eval_defs plain_model_def)
  have h1: "\<not> has_parameter plain_model ''position_ids''"
    by (simp add: eval_defs plain_model_def)
  have n1: "length (heap plain_model) = 3" by (simp add: plain_model_def)
  from C6_position_ids[OF w1] h1 obtain m' where
    "adapt_position_ids plain_model = Inr (length (heap plain_model) + 2, m')"
    "m_parameters m' = m_parameters plain_model @ [length (heap plain_model)]"
    "get_node m' (length (heap plain_model)) = Some (Parameter_node i64 [-1] ''position_ids'')"
    "get_node m' (length (heap plain_model) + 2) =
       Some (rewire (length (heap plain_model)) (length (heap plain_model) + 2)
              (op_node Unsqueeze [length (heap plain_model), length (heap plain_model) + 1]))"
    by blast
  then have 1: "\<exists>m'. adapt_position_ids plain_model = Inr (5, m') \<and>
         m_parameters m' = [0, 1, 3] \<and>
         get_node m' 3 = Some (Parameter_node i64 [-1] ''position_ids'') \<and>
         get_node m' 5 = Some (op_node Unsqueeze [5, 4])"
    by (simp add: n1 rewire_def op_node_def) (simp add: plain_model_def)
  have w2: "inputs_are_Parameters position_model"
    by (simp add: inputs_are_Parameters_def eval_defs position_model_def)
  have h2: "has_parameter position_model ''position_ids''"
    "input position_model ''position_ids'' = Some 2"
    "get_node position_model 2 = Some (Parameter_node i64 [-1, -1] ''position_ids'')"
    "get_node position_model 3 = Some (op_node (Other ''Gather'') [2])"
    by (simp_all add: eval_defs position_model_def)
  have n2: "length (heap position_model) = 4" by (simp add: position_model_def)
  from C6_position_ids[OF w2, THEN conjunct2, rule_format, OF h2(1)]
  obtain t nd et ps m' where r:
    "input position_model ''position_ids'' = Some t" "get_node position_model t = Some nd"
    "op nd = Parameter et ps"
    "adapt_position_ids position_model = Inr (length (heap position_model) + 1, m')"
    "m_parameters m' = m_parameters position_model"
    "get_node m' t =
       Some (rewire t (length (heap position_model) + 1) (nd\<lparr>op := Parameter et [-1]\<rparr>))"
    "\<forall>i nd'. i \<noteq> t \<and> get_node position_model i = Some nd' \<longrightarrow>
        get_node m' i = Some (rewire t (length (heap position_model) + 1) nd')"
    by blast
  from r(1) h2(2) have t: "t = 2" by simp
  from r(2) h2(3) t have nd: "nd = Parameter_node i64 [-1, -1] ''position_ids''" by simp
  from r(3) nd have et: "et = i64" by (simp add: Parameter_node_def)
  from r(4-7) h2(4) have 2: "\<exists>m'. adapt_position_ids position_model = Inr (5, m') \<and>
         m_parameters m' = [0, 1, 2] \<and>
         get_node m' 2 = Some (Parameter_node i64 [-1] ''position_ids'') \<and>
         get_node m' 3 = Some (op_node (Other ''Gather'') [5])"
    unfolding t nd et
    by (simp add: n2 rewire_def op_node_def Parameter_node_def) (simp add: position_model_def)
  from w1 h1 1 w2 h2(1) 2 show ?thesis by blast
qed

text \<open>
  C7. The run has reached line 99 with the model \<open>m2\<close> that the sub-passes left. If an input
  named \<open>beam_idx\<close> exists and is a Parameter, it is removed from the Parameter list and the
  run goes on with the \<open>attention_mask\<close> step; if it exists and is not a Parameter, the run
  returns false; if no input carries the name, the model is left as it is and the run goes
  on with the \<open>attention_mask\<close> step.
\<close>

theorem C7_beam_idx:
  assumes "prepare m = Inr (pin, m1)"
    and "run_passes pin initial_context m1 = (ctx, m2)"
  shows "(\<forall>t. has_parameter m2 ''beam_idx'' \<and> input m2 ''beam_idx'' = Some t \<and>
              dynamic_pointer_cast_Parameter m2 t = Some t \<longrightarrow>
            remove_beam_idx m2 = Inr (remove_parameter m2 t) \<and>
            t \<notin> set (m_parameters (remove_parameter m2 t)) \<and>
            run_on_model run_passes m =
              (case remove_attention_mask (remove_parameter m2 t) of
                 Inl stop \<Rightarrow> stop
               | Inr m4 \<Rightarrow> (Returned True, finish pin ctx [] m4))) \<and>
         (\<forall>t. has_parameter m2 ''beam_idx'' \<and> input m2 ''beam_idx'' = Some t \<and>
              dynamic_pointer_cast_Parameter m2 t = None \<longrightarrow>
            run_on_model run_passes m = (Returned False, m2)) \<and>
         (\<not> has_parameter m2 ''beam_idx'' \<longrightarrow>
            remove_beam_idx m2 = Inr m2 \<and>
            run_on_model run_passes m =
              (case remove_attention_mask m2 of
                 Inl stop \<Rightarrow> stop
               | Inr m4 \<Rightarrow> (Returned True, finish pin ctx [] m4)))"
  using assms
  by (simp add: run_on_model_passes finalize_def remove_beam_idx_eq has_parameter_input
      remove_parameter_def)

theorem C7_beam_idx_witness:
  "fst (run_on_model example_passes example_model) = Returned True \<and>
   m_parameters (snd (run_on_model example_passes example_model)) =
     [0, 23, 26, 27, 28, 29, 10, 11, 12, 13, 9] \<and>
   fst (run_on_model no_passes computed_beam_model) = Returned False \<and>
   fst (run_on_model no_passes plain_model) = Returned True"
proof -
  have "\<exists>pin m1 ctx m2 m4.
          prepare example_model = Inr (pin, m1) \<and>
          example_passes pin initial_context m1 = (ctx, m2) \<and>
          has_parameter m2 ''beam_idx'' \<and>
          input m2 ''beam_idx'' = Some 2 \<and>
          dynamic_pointer_cast_Parameter m2 2 = Some 2 \<and>
          remove_attention_mask (remove_parameter m2 2) = Inr m4 \<and>
          m_parameters (finish pin ctx [] m4) = [0, 23, 26, 27, 28, 29, 10, 11, 12, 13, 9]"
    by (simp add: eval_defs example_model_def)
  then obtain pin m1 ctx m2 m4 where
    p: "prepare example_model = Inr (pin, m1)" and
    r: "example_passes pin initial_context m1 = (ctx, m2)" and
    h: "has_parameter m2 ''beam_idx''" "input m2 ''beam_idx'' = Some 2"
       "dynamic_pointer_cast_Parameter m2 2 = Some 2" and
    a: "remove_attention_mask (remove_parameter m2 2) = Inr m4" and
    l: "m_parameters (finish pin ctx [] m4) = [0, 23, 26, 27, 28, 29, 10, 11, 12, 13, 9]"
    by blast
  from C7_beam_idx[where run_passes = example_passes, OF p r] h
  have "run_on_model example_passes example_model =
          (case remove_attention_mask (remove_parameter m2 2) of
             Inl stop \<Rightarrow> stop
           | Inr m4 \<Rightarrow> (Returned True, finish pin ctx [] m4))"
    by blast
  with a l have 1: "fst (run_on_model example_passes example_model) = Returned True"
    "m_parameters (snd (run_on_model example_passes example_model)) =
       [0, 23, 26, 27, 28, 29, 10, 11, 12, 13, 9]"
    by simp_all
  have "\<exists>pin m1 ctx m2.
          prepare computed_beam_model = Inr (pin, m1) \<and>
          no_passes pin initial_context m1 = (ctx, m2) \<and>
          has_parameter m2 ''beam_idx'' \<and>
          input m2 ''beam_idx'' = Some 2 \<and>
          dynamic_pointer_cast_Parameter m2 2 = None"
    by (simp add: eval_defs computed_beam_model_def)
  then obtain pin m1 ctx m2 where
    p: "prepare computed_beam_model = Inr (pin, m1)" and
    r: "no_passes pin initial_context m1 = (ctx, m2)" and
    h: "has_parameter m2 ''beam_idx''" "input m2 ''beam_idx'' = Some 2"
       "dynamic_pointer_cast_Parameter m2 2 = None"
    by blast
  from C7_beam_idx[where run_passes = no_passes, OF p r] h
  have "run_on_model no_passes computed_beam_model = (Returned False, m2)"
    by blast
  then have 2: "fst (run_on_model no_passes computed_beam_model) = Returned False"
    by simp
  have "\<exists>pin m1 ctx m2 m4.
          prepare plain_model = Inr (pin, m1) \<and>
          no_passes pin initial_context m1 = (ctx, m2) \<and>
          \<not> has_parameter m2 ''beam_idx'' \<and>
          remove_attention_mask m2 = Inr m4"
    by (simp add: eval_defs plain_model_def)
  then obtain pin m1 ctx m2 m4 where
    p: "prepare plain_model = Inr (pin, m1)" and
    r: "no_passes pin initial_context m1 = (ctx, m2)" and
    h: "\<not> has_parameter m2 ''beam_idx''" and
    a: "remove_attention_mask m2 = Inr m4"
    by blast
  from C7_beam_idx[where run_passes = no_passes, OF p r] h
  have "run_on_model no_passes plain_model =
          (case remove_attention_mask m2 of
             Inl stop \<Rightarrow> stop
           | Inr m4 \<Rightarrow> (Returned True, finish pin ctx [] m4))"
    by blast
  with a have 3: "fst (run_on_model no_passes plain_model) = Returned True"
    by simp
  from 1 2 3 show ?thesis by blast
qed

text \<open>
  C8, as the source has it. \<open>max_context_len\<close> is created as a Parameter of element type
  \<open>i32\<close> and shape \<open>[]\<close>, and \<open>context_lens\<close>, \<open>subsequence_begins\<close>, \<open>block_indices\<close> and
  \<open>block_indices_begins\<close> as Parameters of element type \<open>i32\<close> and shape \<open>[-1]\<close>, each with
  its own name as friendly name and as only tensor name. On a successful run each of the
  five names is carried by exactly one entry of the resulting Parameter list, whatever the
  number of KV Parameters, provided that the sub-passes leave the names of the five nodes
  alone and that no Parameter of the model after the sub-passes and no KV Parameter carries
  one of the five names.
\<close>

theorem C8_scheduling_parameters:
  assumes p: "prepare m = Inr (pin, m1)"
    and r: "run_passes pin initial_context m1 = (ctx, m2)"
    and s: "run_on_model run_passes m = (Returned True, m')"
    and keep: "\<forall>q \<in> set (p_max_context_len pin # p_model_remaining_params pin).
                 get_names m2 q = get_names m1 q"
    and fresh: "\<forall>q \<in> set (m_parameters m2 @ c_kv_parameters ctx).
                  \<forall>name \<in> set scheduling_names. name \<notin> set (get_names m2 q)"
  shows "get_node m1 (p_max_context_len pin) = Some (Parameter_node i32 [] ''max_context_len'') \<and>
         map (get_node m1) (p_model_remaining_params pin) =
           [Some (Parameter_node i32 [-1] ''context_lens''),
            Some (Parameter_node i32 [-1] ''subsequence_begins''),
            Some (Parameter_node i32 [-1] ''block_indices''),
            Some (Parameter_node i32 [-1] ''block_indices_begins'')] \<and>
         (\<forall>name \<in> set scheduling_names. count_name m' name = 1)"
proof -
  let ?n = "length (heap m)"
  have g: "get_node m1 (?n + k) = Some (scheduling_nodes ! k)" if "k < 5" for k
    using prepare_scheduling_nodes[OF p that] .
  note pi = prepare_pass_inputs[OF p]
  from g[of 0] g[of 1] g[of 2] g[of 3] g[of 4]
  have 1: "get_node m1 (p_max_context_len pin) = Some (Parameter_node i32 [] ''max_context_len'')"
    and 2: "map (get_node m1) (p_model_remaining_params pin) =
           [Some (Parameter_node i32 [-1] ''context_lens''),
            Some (Parameter_node i32 [-1] ''subsequence_begins''),
            Some (Parameter_node i32 [-1] ''block_indices''),
            Some (Parameter_node i32 [-1] ''block_indices_begins'')]"
    by (simp_all add: pi scheduling_nodes_def)
  from p r s obtain m3 m4 where b: "remove_beam_idx m2 = Inr m3"
    and a: "remove_attention_mask m3 = Inr m4"
    and l: "m_parameters m' =
           filter (\<lambda>p. p \<notin> set (c_parameters_to_remove ctx)) (m_parameters m4) @
           c_kv_parameters ctx @ p_model_remaining_params pin @ [p_max_context_len pin]"
    and h: "heap m' = heap m2"
    by (rule run_success_parameters)
  from remove_beam_idx_parameters[OF b] remove_attention_mask_parameters[OF a]
  have sub: "set (m_parameters m4) \<subseteq> set (m_parameters m2)" by blast
  have nm: "get_names m' q = get_names m2 q" for q
    using h by (rule get_names_heap_eq)
  have names: "get_names m2 (?n + k) = names (scheduling_nodes ! k)" if "k < 5" for k
  proof -
    from that have "?n + k \<in> set (p_max_context_len pin # p_model_remaining_params pin)"
      by (auto simp: pi less_Suc_eq eval_nat_numeral)
    with keep have "get_names m2 (?n + k) = get_names m1 (?n + k)" by blast
    with g[OF that] show ?thesis by (simp add: get_names_get_node)
  qed
  have 3: "count_name m' name = 1" if n: "name \<in> set scheduling_names" for name
  proof -
    let ?P = "\<lambda>q. name \<in> set (get_names m2 q)"
    have pre: "filter ?P (filter (\<lambda>p. p \<notin> set (c_parameters_to_remove ctx)) (m_parameters m4)) = []"
      using fresh sub n by (intro filter_empty_names) auto
    have kv: "filter ?P (c_kv_parameters ctx) = []"
      using fresh n by (intro filter_empty_names) auto
    have five: "length (filter ?P [?n + 1, ?n + 2, ?n + 3, ?n + 4, ?n + 0]) = 1"
      using n names[of 0] names[of 1] names[of 2] names[of 3] names[of 4]
      by (auto simp: scheduling_names_def scheduling_nodes_def Parameter_node_def)
    show ?thesis
      using pre kv five by (simp add: count_name_def nm l pi)
  qed
  from 1 2 3 show ?thesis by blast
qed

theorem C8_scheduling_parameters_witness:
  "fst (run_on_model example_passes example_model) = Returned True \<and>
   m_parameters (snd (run_on_model example_passes example_model)) =
     [0, 23, 26, 27, 28, 29, 10, 11, 12, 13, 9] \<and>
   count_name (snd (run_on_model example_passes example_model)) ''max_context_len'' = 1 \<and>
   count_name (snd (run_on_model example_passes example_model)) ''context_lens'' = 1 \<and>
   count_name (snd (run_on_model example_passes example_model)) ''subsequence_begins'' = 1 \<and>
   count_name (snd (run_on_model example_passes example_model)) ''block_indices'' = 1 \<and>
   count_name (snd (run_on_model example_passes example_model)) ''block_indices_begins'' = 1"
proof -
  have "\<exists>pin m1 ctx m2 m'.
          prepare example_model = Inr (pin, m1) \<and>
          example_passes pin initial_context m1 = (ctx, m2) \<and>
          run_on_model example_passes example_model = (Returned True, m') \<and>
          (\<forall>q \<in> set (p_max_context_len pin # p_model_remaining_params pin).
             get_names m2 q = get_names m1 q) \<and>
          (\<forall>q \<in> set (m_parameters m2 @ c_kv_parameters ctx).
             \<forall>name \<in> set scheduling_names. name \<notin> set (get_names m2 q)) \<and>
          m_parameters m' = [0, 23, 26, 27, 28, 29, 10, 11, 12, 13, 9]"
    by (simp add: eval_defs example_model_def scheduling_names_def)
  then obtain pin m1 ctx m2 m' where
    p: "prepare example_model = Inr (pin, m1)" and
    r: "example_passes pin initial_context m1 = (ctx, m2)" and
    s: "run_on_model example_passes example_model = (Returned True, m')" and
    keep: "\<forall>q \<in> set (p_max_context_len pin # p_model_remaining_params pin).
             get_names m2 q = get_names m1 q" and
    fresh: "\<forall>q \<in> set (m_parameters m2 @ c_kv_parameters ctx).
             \<forall>name \<in> set scheduling_names. name \<notin> set (get_names m2 q)" and
    l: "m_parameters m' = [0, 23, 26, 27, 28, 29, 10, 11, 12, 13, 9]"
    by blast
  from C8_scheduling_parameters[where run_passes = example_passes, OF p r s keep fresh]
  have "\<forall>name \<in> set scheduling_names. count_name m' name = 1" by blast
  with s l show ?thesis by (simp add: scheduling_names_def)
qed

text \<open>
  Without the proviso the statement fails: nothing in the source looks for a Parameter that
  already carries one of the names. A model that has an input named \<open>context_lens\<close> is
  transformed with success, and two entries of the resulting Parameter list carry the name.
\<close>

theorem C8_scheduling_parameters_counterexample:
  "fst (run_on_model no_passes clashing_model) = Returned True \<and>
   m_parameters (snd (run_on_model no_passes clashing_model)) = [0, 2, 17, 4, 5, 6, 7, 3] \<and>
   count_name (snd (run_on_model no_passes clashing_model)) ''context_lens'' = 2"
  by (simp add: eval_defs clashing_model_def count_name_def)

text \<open>
  C9. \<open>results_to_remove\<close> is declared empty, is not handed to the sub-passes and is never
  appended to, so the loop of lines 127-129 removes nothing. Whether the run stops before
  the sub-passes, returns false or returns true, lines 31-81 and lines 99-134 leave the
  model's Result list as it is: the list of the result is the list that the sub-passes left,
  and it is the list of the input model when the sub-passes do not change it.
\<close>

theorem C9_results_unchanged:
  "(\<forall>out m'. prepare m = Inl (out, m') \<longrightarrow>
      run_on_model run_passes m = (out, m') \<and> m_results m' = m_results m) \<and>
   (\<forall>pin m1 ctx m2. prepare m = Inr (pin, m1) \<and> run_passes pin initial_context m1 = (ctx, m2) \<longrightarrow>
      m_results m1 = m_results m \<and>
      m_results (snd (run_on_model run_passes m)) = m_results m2) \<and>
   ((\<forall>pin m1. prepare m = Inr (pin, m1) \<longrightarrow>
       m_results (snd (run_passes pin initial_context m1)) = m_results m1) \<longrightarrow>
    m_results (snd (run_on_model run_passes m)) = m_results m)"
proof (intro conjI allI impI)
  fix out m'
  assume "prepare m = Inl (out, m')"
  then show "run_on_model run_passes m = (out, m')" and "m_results m' = m_results m"
    by (simp_all add: run_on_model_stop prepare_stop(2))
next
  fix pin m1 ctx m2
  assume "prepare m = Inr (pin, m1) \<and> run_passes pin initial_context m1 = (ctx, m2)"
  then show "m_results m1 = m_results m"
    and "m_results (snd (run_on_model run_passes m)) = m_results m2"
    by (simp_all add: prepare_results run_on_model_passes finalize_frame)
next
  assume a: "\<forall>pin m1. prepare m = Inr (pin, m1) \<longrightarrow>
       m_results (snd (run_passes pin initial_context m1)) = m_results m1"
  show "m_results (snd (run_on_model run_passes m)) = m_results m"
  proof (cases "prepare m")
    case (Inl stop)
    obtain out m' where "stop = (out, m')" by (cases stop)
    with Inl prepare_stop(2)[of m out m'] show ?thesis by (simp add: run_on_model_stop)
  next
    case (Inr r)
    obtain pin m1 where r: "r = (pin, m1)" by (cases r)
    obtain ctx m2 where p: "run_passes pin initial_context m1 = (ctx, m2)"
      by (cases "run_passes pin initial_context m1")
    from a Inr r p have "m_results m2 = m_results m1" by auto
    moreover from Inr r have "m_results m1 = m_results m" by (simp add: prepare_results)
    ultimately show ?thesis using Inr r p by (simp add: run_on_model_passes finalize_frame)
  qed
qed

theorem C9_results_unchanged_witness:
  "m_results example_model = [8] \<and>
   m_results (snd (run_on_model example_passes example_model)) = [8]"
proof -
  have e: "m_results example_model = [8]" by (simp add: example_model_def)
  have "\<forall>pin m1. prepare example_model = Inr (pin, m1) \<longrightarrow>
       m_results (snd (example_passes pin initial_context m1)) = m_results m1"
    by (simp add: example_passes_results)
  with C9_results_unchanged[of example_model example_passes]
  have "m_results (snd (run_on_model example_passes example_model)) = m_results example_model"
    by blast
  with e show ?thesis by simp
qed

text \<open>
  C10. In every model in which an input named \<open>position_ids\<close> exists and is not a Parameter,
  the run does not return, whatever the sub-passes are. If \<open>input_ids\<close> resolves to a
  Parameter, the run gets to line 74, where the cast gives the null handle, and ends at
  line 75, which dereferences it. The \<open>position_ids\<close> step has no branch that returns a
  boolean, unlike the steps for \<open>beam_idx\<close> and \<open>attention_mask\<close>.
\<close>

theorem C10_position_ids_null:
  assumes "input m ''position_ids'' = Some t"
    and "dynamic_pointer_cast_Parameter m t = None"
  shows "(\<forall>b. fst (run_on_model run_passes m) \<noteq> Returned b) \<and>
         (\<forall>a. input m ''input_ids'' = Some a \<and> dynamic_pointer_cast_Parameter m a = Some a \<longrightarrow>
            (\<exists>m'. run_on_model run_passes m = (NullDereference, m') \<and>
                  adapt_position_ids m' = Inl (NullDereference, m'))) \<and>
         (\<forall>m0 b m'. adapt_position_ids m0 \<noteq> Inl (Returned b, m'))"
proof (intro conjI allI impI)
  fix b
  show "fst (run_on_model run_passes m) \<noteq> Returned b"
    using assms by (rule position_ids_failure_no_return)
next
  fix a
  assume "input m ''input_ids'' = Some a \<and> dynamic_pointer_cast_Parameter m a = Some a"
  then have a: "input m ''input_ids'' = Some a"
    and ca: "dynamic_pointer_cast_Parameter m a = Some a"
    by simp_all
  from a ca assms have "\<exists>m'. prepare m = Inl (NullDereference, m') \<and>
      adapt_position_ids m' = Inl (NullDereference, m')"
    by (rule prepare_position_ids_failure)
  then show "\<exists>m'. run_on_model run_passes m = (NullDereference, m') \<and>
      adapt_position_ids m' = Inl (NullDereference, m')"
    by (auto simp: run_on_model_stop)
next
  fix m0 b m'
  show "adapt_position_ids m0 \<noteq> Inl (Returned b, m')"
    by (rule adapt_position_ids_no_boolean)
qed

theorem C10_position_ids_null_witness:
  "input computed_position_model ''position_ids'' = Some 2 \<and>
   dynamic_pointer_cast_Parameter computed_position_model 2 = None \<and>
   fst (run_on_model no_passes computed_position_model) = NullDereference"
proof -
  have a: "input computed_position_model ''input_ids'' = Some 0"
    and ca: "dynamic_pointer_cast_Parameter computed_position_model 0 = Some 0"
    and t: "input computed_position_model ''position_ids'' = Some 2"
    and ct: "dynamic_pointer_cast_Parameter computed_position_model 2 = None"
    by (simp_all add: eval_defs computed_position_model_def)
  from C10_position_ids_null[where run_passes = no_passes, OF t ct] a ca
  obtain m' where "run_on_model no_passes computed_position_model = (NullDereference, m')"
    by blast
  with t ct show ?thesis by simp
qed

end
